theory Spec2Isabelle
  imports Complex_Main
begin

text \<open>
  A shallow embedding of the three scripts of the payment router that take decisions: the
  routing engine, the payment processing workflow and the gateway webhook handler. Each
  script's \<open>main\<close> becomes a function from its inputs and the store to its result and
  the store afterwards; a \<open>throw\<close> is a result of its own. The definitions come
  first, then the inputs used as examples, then the properties.
\<close>

section \<open>Routing engine (windmill/scripts/payment/routing-engine.ts, first script)\<close>

text \<open>
  JavaScript numbers are modelled as rationals: every amount, fee, rate and score that
  occurs below is a decimal fraction, and the arithmetic of the scripts (\<open>+\<close>, \<open>-\<close>,
  \<open>*\<close>, division by 100) is read exactly. A value that may be \<open>undefined\<close> or
  \<open>null\<close> is an \<open>option\<close>.
\<close>

record routing_transaction =
  amount :: rat
  currency :: string
  payment_method :: string
  merchant_id :: string

text \<open>One element of the list returned by \<open>getAvailableGateways\<close>.\<close>

record available_gateway =
  gateway_id :: string
  gateway_code :: string
  priority :: rat
  fee_percentage :: rat
  fee_fixed :: rat

text \<open>
  One element of \<open>response.data.gateway_health_metrics_aggregate\<close>: the gateway of
  \<open>nodes[0]\<close> and the two averages, which are \<open>null\<close> when the database has no value.
\<close>

record health_aggregate =
  agg_gateway_id :: string
  avg_success_rate :: "rat option"
  avg_average_response_time_ms :: "rat option"

record GatewayHealth =
  h_gateway_id :: string
  success_rate :: rat
  average_response_time_ms :: rat
  is_healthy :: bool

text \<open>The JSON objects \<open>rule.conditions\<close> and \<open>rule.actions\<close>, field by field.\<close>

record amount_range =
  amount_min :: "rat option"
  amount_max :: "rat option"

record time_window =
  window_start :: "rat option"
  window_end :: "rat option"

record rule_conditions =
  cond_amount :: "amount_range option"
  cond_currency :: "string option"
  cond_payment_method :: "string option"
  cond_time_of_day :: "time_window option"

record rule_actions =
  preferred_gateway :: "string option"
  avoided_gateway :: "string option"
  distribution :: "(string \<times> rat) list option"
  use_priority :: bool

record routing_rule =
  rule_name :: string
  rule_type :: string
  rule_priority :: rat
  conditions :: rule_conditions
  actions :: rule_actions

text \<open>
  The entries pushed on \<open>reasons\<close>; the script formats each as a string and joins
  them with \<open>"; "\<close>, the model keeps the entries themselves.
\<close>

datatype reason_entry =
  Priority_reason rat
  | Health_reason rat
  | Fee_reason rat
  | Rule_reason string rat

record scored_gateway = available_gateway +
  score :: rat
  reasons :: "reason_entry list"

record RoutingDecision =
  decision_gateway_id :: string
  decision_gateway_code :: string
  decision_reason :: "reason_entry list"
  decision_score :: rat

datatype routing_error =
  No_available_gateways
  | No_healthy_gateways

text \<open>Truthiness of an optional number and of an optional string in JavaScript.\<close>

fun truthy_number :: "rat option \<Rightarrow> bool" where
  "truthy_number None = False"
| "truthy_number (Some x) = (x \<noteq> 0)"

fun truthy_string :: "string option \<Rightarrow> bool" where
  "truthy_string None = False"
| "truthy_string (Some s) = (s \<noteq> [])"

text \<open>\<open>x || d\<close> on an optional number.\<close>

definition or_default :: "rat option \<Rightarrow> rat \<Rightarrow> rat" where
  "or_default x d = (case x of None \<Rightarrow> d | Some v \<Rightarrow> if v \<noteq> 0 then v else d)"

text \<open>The mapping at the end of \<open>getGatewayHealthMetrics\<close>.\<close>

definition health_of_aggregate :: "health_aggregate \<Rightarrow> GatewayHealth" where
  "health_of_aggregate metric =
     \<lparr> h_gateway_id = agg_gateway_id metric,
       success_rate = or_default (avg_success_rate metric) 95,
       average_response_time_ms = or_default (avg_average_response_time_ms metric) 1000,
       is_healthy = (or_default (avg_success_rate metric) 95 \<ge> 80 \<and>
                     or_default (avg_average_response_time_ms metric) 1000 \<le> 5000) \<rparr>"

definition getGatewayHealthMetrics :: "health_aggregate list \<Rightarrow> GatewayHealth list" where
  "getGatewayHealthMetrics response = map health_of_aggregate response"

definition calculateFee :: "rat \<Rightarrow> rat \<Rightarrow> rat \<Rightarrow> rat" where
  "calculateFee amt percentage fixed = (amt * percentage) + fixed"

text \<open>
  \<open>evaluateRule\<close> reads the clock: \<open>hour\<close> is the value of
  \<open>new Date().getHours()\<close>. A comparison with a bound that is \<open>undefined\<close> is false.
\<close>

definition below_min :: "rat \<Rightarrow> rat option \<Rightarrow> bool" where
  "below_min amt b = (case b of None \<Rightarrow> False | Some m \<Rightarrow> m \<noteq> 0 \<and> amt < m)"

definition above_max :: "rat \<Rightarrow> rat option \<Rightarrow> bool" where
  "above_max amt b = (case b of None \<Rightarrow> False | Some m \<Rightarrow> m \<noteq> 0 \<and> amt > m)"

definition amount_ok :: "amount_range option \<Rightarrow> rat \<Rightarrow> bool" where
  "amount_ok a amt =
     (case a of
        None \<Rightarrow> True
      | Some r \<Rightarrow> \<not> below_min amt (amount_min r) \<and> \<not> above_max amt (amount_max r))"

definition before_start :: "int \<Rightarrow> rat option \<Rightarrow> bool" where
  "before_start hour b = (case b of None \<Rightarrow> False | Some s \<Rightarrow> of_int hour < s)"

definition after_end :: "int \<Rightarrow> rat option \<Rightarrow> bool" where
  "after_end hour b = (case b of None \<Rightarrow> False | Some e \<Rightarrow> of_int hour > e)"

definition time_ok :: "time_window option \<Rightarrow> int \<Rightarrow> bool" where
  "time_ok w hour =
     (case w of
        None \<Rightarrow> True
      | Some t \<Rightarrow> \<not> (before_start hour (window_start t) \<or> after_end hour (window_end t)))"

definition evaluateRule ::
  "routing_rule \<Rightarrow> routing_transaction \<Rightarrow> available_gateway \<Rightarrow> int \<Rightarrow> bool" where
  "evaluateRule rule transaction gateway hour =
     (let c = conditions rule in
      if \<not> amount_ok (cond_amount c) (amount transaction) then False
      else if truthy_string (cond_currency c) \<and> Some (currency transaction) \<noteq> cond_currency c
        then False
      else if truthy_string (cond_payment_method c) \<and>
              Some (payment_method transaction) \<noteq> cond_payment_method c
        then False
      else time_ok (cond_time_of_day c) hour)"

definition applyRuleScoreAdjustment :: "routing_rule \<Rightarrow> available_gateway \<Rightarrow> rat" where
  "applyRuleScoreAdjustment rule gateway =
     (let a = actions rule in
      if preferred_gateway a = Some (gateway_code gateway) then 50
      else if avoided_gateway a = Some (gateway_code gateway) then - 50
      else case distribution a of
             None \<Rightarrow> 0
           | Some d \<Rightarrow> or_default (map_of d (gateway_code gateway)) 0)"

text \<open>The \<open>for\<close> loop over the routing rules inside the scoring callback.\<close>

fun apply_rules ::
  "routing_transaction \<Rightarrow> int \<Rightarrow> available_gateway \<Rightarrow> routing_rule list \<Rightarrow>
   rat \<times> reason_entry list \<Rightarrow> rat \<times> reason_entry list" where
  "apply_rules transaction hour gateway [] acc = acc"
| "apply_rules transaction hour gateway (rule # rules) (sc, rs) =
     (if evaluateRule rule transaction gateway hour
      then (let adjustment = applyRuleScoreAdjustment rule gateway in
            apply_rules transaction hour gateway rules
              (sc + adjustment,
               if adjustment \<noteq> 0 then rs @ [Rule_reason (rule_name rule) adjustment] else rs))
      else apply_rules transaction hour gateway rules (sc, rs))"

definition find_health :: "GatewayHealth list \<Rightarrow> string \<Rightarrow> GatewayHealth option" where
  "find_health healthMetrics gid = find (\<lambda>h. h_gateway_id h = gid) healthMetrics"

text \<open>The callback of \<open>availableGateways.map\<close> (step 4 of \<open>main\<close>).\<close>

definition score_gateway ::
  "routing_transaction \<Rightarrow> GatewayHealth list \<Rightarrow> routing_rule list \<Rightarrow> int \<Rightarrow>
   available_gateway \<Rightarrow> scored_gateway" where
  "score_gateway transaction healthMetrics routingRules hour gateway =
     (let sc0 = 100;
          sc1 = sc0 + (10 - priority gateway) * 5;
          rs1 = [Priority_reason (priority gateway)];
          (sc2, rs2) =
            (case find_health healthMetrics (gateway_id gateway) of
               None \<Rightarrow> (sc1, rs1)
             | Some health \<Rightarrow>
                 (sc1 + success_rate health - average_response_time_ms health / 100,
                  rs1 @ [Health_reason (success_rate health)]));
          transactionFee =
            calculateFee (amount transaction) (fee_percentage gateway) (fee_fixed gateway);
          sc3 = sc2 - transactionFee;
          rs3 = rs2 @ [Fee_reason transactionFee];
          (sc4, rs4) = apply_rules transaction hour gateway routingRules (sc3, rs3)
      in available_gateway.extend gateway \<lparr> score = sc4, reasons = rs4 \<rparr>)"

text \<open>The predicate of the \<open>filter\<close> in step 5.\<close>

definition passes_health_filter :: "GatewayHealth list \<Rightarrow> scored_gateway \<Rightarrow> bool" where
  "passes_health_filter healthMetrics g =
     (case find_health healthMetrics (gateway_id g) of
        None \<Rightarrow> True
      | Some health \<Rightarrow> is_healthy health)"

text \<open>
  \<open>sort((a, b) => b.score - a.score)\<close>: descending by score; the sort of the
  language is stable, as \<open>sort_key\<close> is.
\<close>

definition sort_by_score :: "scored_gateway list \<Rightarrow> scored_gateway list" where
  "sort_by_score gs = sort_key (\<lambda>g. - score g) gs"

definition decision_of :: "scored_gateway \<Rightarrow> RoutingDecision" where
  "decision_of bestGateway =
     \<lparr> decision_gateway_id = gateway_id bestGateway,
       decision_gateway_code = gateway_code bestGateway,
       decision_reason = reasons bestGateway,
       decision_score = score bestGateway \<rparr>"

definition scored_gateways ::
  "routing_transaction \<Rightarrow> available_gateway list \<Rightarrow> health_aggregate list \<Rightarrow>
   routing_rule list \<Rightarrow> int \<Rightarrow> scored_gateway list" where
  "scored_gateways transaction availableGateways healthResponse routingRules hour =
     map (score_gateway transaction (getGatewayHealthMetrics healthResponse) routingRules hour)
       availableGateways"

text \<open>
  \<open>main\<close> of the routing engine. The three queries are the arguments
  \<open>availableGateways\<close>, \<open>healthResponse\<close> and \<open>routingRules\<close>; the two
  \<open>throw\<close>s are the \<open>Inl\<close> results.
\<close>

definition routing_main ::
  "routing_transaction \<Rightarrow> available_gateway list \<Rightarrow> health_aggregate list \<Rightarrow>
   routing_rule list \<Rightarrow> int \<Rightarrow> routing_error + RoutingDecision" where
  "routing_main transaction availableGateways healthResponse routingRules hour =
     (if length availableGateways = 0 then Inl No_available_gateways
      else
        (case sort_by_score
                (filter (passes_health_filter (getGatewayHealthMetrics healthResponse))
                   (scored_gateways transaction availableGateways healthResponse
                      routingRules hour)) of
           [] \<Rightarrow> Inl No_healthy_gateways
         | bestGateway # _ \<Rightarrow> Inr (decision_of bestGateway)))"

section \<open>Stored data\<close>

text \<open>
  The store behind the GraphQL endpoint is an external collaborator. It is modelled as a
  record of tables, each a list of rows, and every query and mutation of the scripts is
  read as the store carrying it out as written. The columns are those the scripts read
  or write.
\<close>

datatype transaction_status = Pending | Processing | Success | Failed | Refunded | Cancelled

fun status_name :: "transaction_status \<Rightarrow> string" where
  "status_name Pending = ''pending''"
| "status_name Processing = ''processing''"
| "status_name Success = ''success''"
| "status_name Failed = ''failed''"
| "status_name Refunded = ''refunded''"
| "status_name Cancelled = ''cancelled''"

text \<open>JSON documents (objects with distinct keys; arrays do not occur on any path read).\<close>

datatype json = JNull | JBool bool | JNum rat | JStr string | JObj "(string \<times> json) list"

text \<open>
  An argument of a mutation: a variable that is \<open>undefined\<close> is left out of the request
  and its column is not written, \<open>null\<close> writes NULL.
\<close>

datatype 'a js_arg = Arg_undefined | Arg_null | Arg 'a

definition set_arg :: "'a js_arg \<Rightarrow> 'a option \<Rightarrow> 'a option" where
  "set_arg a old = (case a of Arg_undefined \<Rightarrow> old | Arg_null \<Rightarrow> None | Arg v \<Rightarrow> Some v)"

record PaymentGateway =
  pg_id :: string
  pg_gateway_code :: string
  provider :: string
  credentials :: json

record merchant_gateway =
  gateway :: PaymentGateway
  mg_priority :: rat
  mg_is_active :: bool

text \<open>
  A row of \<open>transactions\<close>. \<open>merchant_gateways\<close> and \<open>routing_rules\<close> hold what the
  nested selections of \<open>GetTransactionForProcessing\<close> return for the merchant of the row
  (the active bindings; the active rules by ascending priority).
\<close>

record transaction_row =
  txn_id :: string
  txn_amount :: rat
  txn_currency :: string
  txn_payment_method :: string
  customer_email :: "string option"
  metadata :: "(string \<times> json) list"
  status :: transaction_status
  gateway_transaction_id :: "string option"
  gateway_response :: "json option"
  merchant_gateways :: "merchant_gateway list"
  routing_rules :: "routing_rule list"
  merchant_webhook_url :: "string option"

record routing_attempt =
  ra_transaction_id :: string
  ra_gateway_id :: string
  attempt_number :: nat
  ra_status :: transaction_status
  error_message :: "string option"
  processing_time_ms :: nat
  response_payload :: "json option"

record webhook_row =
  wh_id :: nat
  wh_source :: string
  wh_event_type :: string
  wh_payload :: json
  wh_gateway_code :: string
  processed :: bool

record audit_log =
  entity_type :: string
  entity_id :: json
  action :: string
  changes :: json

record gateway_config =
  gc_gateway_code :: string
  gc_provider :: string
  gc_credentials :: json
  webhook_secret :: "json option"

text \<open>A call of \<open>fetch\<close> on a merchant's webhook URL.\<close>

record merchant_notification =
  note_url :: string
  note_event :: string
  note_transaction_id :: string
  note_status :: transaction_status

record database =
  transactions :: "transaction_row list"
  routing_attempts :: "routing_attempt list"
  webhooks :: "webhook_row list"
  audit_logs :: "audit_log list"
  payment_gateways :: "gateway_config list"
  notifications :: "merchant_notification list"

definition transactions_by_pk :: "database \<Rightarrow> string \<Rightarrow> transaction_row option" where
  "transactions_by_pk db tid = find (\<lambda>r. txn_id r = tid) (transactions db)"

definition update_transactions_by_pk ::
  "database \<Rightarrow> string \<Rightarrow> (transaction_row \<Rightarrow> transaction_row) \<Rightarrow> database" where
  "update_transactions_by_pk db tid f =
     db \<lparr> transactions := map (\<lambda>r. if txn_id r = tid then f r else r) (transactions db) \<rparr>"

section \<open>JavaScript values\<close>

text \<open>
  The result of reading a property path in an object: \<open>undefined\<close>, the number
  \<open>NaN\<close>, or a JSON value.
\<close>

datatype js_value = JS_undefined | JS_NaN | Json json

datatype js_exception = Error string | TypeError

fun exception_message :: "js_exception \<Rightarrow> string" where
  "exception_message (Error m) = m"
| "exception_message TypeError = ''TypeError''"

fun truthy :: "js_value \<Rightarrow> bool" where
  "truthy JS_undefined = False"
| "truthy JS_NaN = False"
| "truthy (Json JNull) = False"
| "truthy (Json (JBool b)) = b"
| "truthy (Json (JNum r)) = (r \<noteq> 0)"
| "truthy (Json (JStr s)) = (s \<noteq> [])"
| "truthy (Json (JObj kvs)) = True"

text \<open>\<open>a || b\<close>.\<close>

definition js_or :: "js_value \<Rightarrow> js_value \<Rightarrow> js_value" where
  "js_or a b = (if truthy a then a else b)"

text \<open>\<open>v.k\<close> for a value \<open>v\<close> that is neither \<open>null\<close> nor \<open>undefined\<close>.\<close>

fun get_prop :: "json \<Rightarrow> string \<Rightarrow> js_value" where
  "get_prop (JObj kvs) k = (case map_of kvs k of None \<Rightarrow> JS_undefined | Some v \<Rightarrow> Json v)"
| "get_prop v k = JS_undefined"

text \<open>\<open>v?.k\<close>.\<close>

fun opt_prop :: "js_value \<Rightarrow> string \<Rightarrow> js_value" where
  "opt_prop JS_undefined k = JS_undefined"
| "opt_prop JS_NaN k = JS_undefined"
| "opt_prop (Json JNull) k = JS_undefined"
| "opt_prop (Json v) k = get_prop v k"

text \<open>
  The two conversions of a string to a number that the language provides (inside
  \<open>ToNumber\<close> and inside \<open>parseFloat\<close>) are parameters; \<open>None\<close> is \<open>NaN\<close>.
\<close>

record js_builtins =
  string_to_number :: "string \<Rightarrow> rat option"
  parseFloat_string :: "string \<Rightarrow> rat option"

fun to_number :: "js_builtins \<Rightarrow> js_value \<Rightarrow> rat option" where
  "to_number B JS_undefined = None"
| "to_number B JS_NaN = None"
| "to_number B (Json JNull) = Some 0"
| "to_number B (Json (JBool b)) = Some (if b then 1 else 0)"
| "to_number B (Json (JNum r)) = Some r"
| "to_number B (Json (JStr s)) = string_to_number B s"
| "to_number B (Json (JObj kvs)) = None"

definition number_value :: "rat option \<Rightarrow> js_value" where
  "number_value n = (case n of None \<Rightarrow> JS_NaN | Some r \<Rightarrow> Json (JNum r))"

text \<open>\<open>v / 100\<close>.\<close>

definition div_100 :: "js_builtins \<Rightarrow> js_value \<Rightarrow> js_value" where
  "div_100 B v = number_value (map_option (\<lambda>r. r / 100) (to_number B v))"

fun parseFloat :: "js_builtins \<Rightarrow> js_value \<Rightarrow> js_value" where
  "parseFloat B (Json (JNum r)) = Json (JNum r)"
| "parseFloat B (Json (JStr s)) = number_value (parseFloat_string B s)"
| "parseFloat B v = JS_NaN"

text \<open>\<open>a >= b\<close> where \<open>b\<close> is a number: false when \<open>a\<close> converts to \<open>NaN\<close>.\<close>

definition js_ge :: "js_builtins \<Rightarrow> js_value \<Rightarrow> rat \<Rightarrow> bool" where
  "js_ge B a b = (case to_number B a of None \<Rightarrow> False | Some x \<Rightarrow> x \<ge> b)"

text \<open>What \<open>JSON.stringify\<close> makes of a value inside an object.\<close>

fun json_of_value :: "js_value \<Rightarrow> json option" where
  "json_of_value JS_undefined = None"
| "json_of_value JS_NaN = Some JNull"
| "json_of_value (Json v) = Some v"

section \<open>Payment processing workflow (routing-engine.ts, second script)\<close>

record process_input =
  transactionId :: string
  routingStrategy :: "string option"

record process_result =
  res_success :: bool
  res_message :: string
  res_transactionId :: "string option"
  res_gatewayUsed :: "string option"
  res_gatewayTransactionId :: "string js_arg"
  res_error :: "string option"

text \<open>
  The object returned by \<open>processPaymentThroughGateway\<close>: its \<open>transactionId\<close> and the
  object as a whole, which is what the script stores.
\<close>

record payment_result =
  result_transactionId :: "string js_arg"
  result_object :: json

datatype call_outcome = Throws string | Returns payment_result

definition updateTransactionStatus ::
  "database \<Rightarrow> string \<Rightarrow> transaction_status \<Rightarrow> string js_arg \<Rightarrow> json js_arg \<Rightarrow> database" where
  "updateTransactionStatus db tid st gatewayTransactionId gatewayResponse =
     update_transactions_by_pk db tid
       (\<lambda>r. r \<lparr> status := st,
                gateway_transaction_id := set_arg gatewayTransactionId (gateway_transaction_id r),
                gateway_response := set_arg gatewayResponse (gateway_response r) \<rparr>)"

definition logRoutingAttempt :: "database \<Rightarrow> routing_attempt \<Rightarrow> database" where
  "logRoutingAttempt db attempt = db \<lparr> routing_attempts := routing_attempts db @ [attempt] \<rparr>"

text \<open>\<open>evaluateRule\<close> of the workflow script: a \<open>switch\<close> on the rule type.\<close>

definition process_evaluateRule :: "routing_rule \<Rightarrow> transaction_row \<Rightarrow> bool" where
  "process_evaluateRule rule transaction =
     (let c = conditions rule in
      if rule_type rule = ''amount'' then amount_ok (cond_amount c) (txn_amount transaction)
      else if rule_type rule = ''method_based'' then
        (if truthy_string (cond_payment_method c)
         then Some (txn_payment_method transaction) = cond_payment_method c
         else True)
      else True)"

definition sort_by_priority :: "merchant_gateway list \<Rightarrow> merchant_gateway list" where
  "sort_by_priority mgs = sort_key mg_priority mgs"

text \<open>
  \<open>applyRuleAction\<close>. Its \<open>sort\<close> reorders the merchant's list in place; the caller
  returns at once when the list is not empty, so the reordering is never observed.
\<close>

definition applyRuleAction :: "routing_rule \<Rightarrow> merchant_gateway list \<Rightarrow> merchant_gateway option" where
  "applyRuleAction rule merchantGateways =
     (let a = actions rule in
      if truthy_string (preferred_gateway a)
      then find (\<lambda>mg. Some (pg_gateway_code (gateway mg)) = preferred_gateway a) merchantGateways
      else if use_priority a
      then (case sort_by_priority merchantGateways of [] \<Rightarrow> None | mg # _ \<Rightarrow> Some mg)
      else None)"

fun select_by_rules :: "routing_rule list \<Rightarrow> transaction_row \<Rightarrow> PaymentGateway option" where
  "select_by_rules [] transaction = None"
| "select_by_rules (rule # rules) transaction =
     (if process_evaluateRule rule transaction
      then (case applyRuleAction rule (merchant_gateways transaction) of
              Some mg \<Rightarrow> Some (gateway mg)
            | None \<Rightarrow> select_by_rules rules transaction)
      else select_by_rules rules transaction)"

text \<open>
  \<open>selectGateway\<close> returns the inner \<open>gateway\<close> object of a binding, not the binding.
\<close>

definition selectGateway :: "transaction_row \<Rightarrow> string \<Rightarrow> PaymentGateway option" where
  "selectGateway transaction strategy =
     (case select_by_rules (routing_rules transaction) transaction of
        Some g \<Rightarrow> Some g
      | None \<Rightarrow>
          (case sort_by_priority (merchant_gateways transaction) of
             [] \<Rightarrow> None
           | mg # _ \<Rightarrow> Some (gateway mg)))"

text \<open>
  The JavaScript object that a \<open>PaymentGateway\<close> is, with the four properties that the
  query \<open>GetTransactionForProcessing\<close> selects.
\<close>

definition gateway_object :: "PaymentGateway \<Rightarrow> json" where
  "gateway_object g =
     JObj [(''id'', JStr (pg_id g)), (''gateway_code'', JStr (pg_gateway_code g)),
           (''provider'', JStr (provider g)), (''credentials'', credentials g)]"

text \<open>
  \<open>processPaymentThroughGateway(transaction, gatewayConfig)\<close>. Its first statement
  reads \<open>gatewayConfig.gateway.provider\<close>, which throws a \<open>TypeError\<close> when
  \<open>gatewayConfig\<close> has no property \<open>gateway\<close> or has \<open>null\<close> there. The statements
  after this read (the factory, the payment request and the \<open>processPayment\<close> of the
  gateway package) are the parameter \<open>through_gateway\<close>, applied to the transaction and
  to the object \<open>gatewayConfig.gateway\<close>: it throws an error with a message or returns
  a result.
\<close>

type_synonym payment_processor = "transaction_row \<Rightarrow> json \<Rightarrow> call_outcome"

definition processPaymentThroughGateway ::
  "payment_processor \<Rightarrow> transaction_row \<Rightarrow> json \<Rightarrow> call_outcome" where
  "processPaymentThroughGateway through_gateway transaction gatewayConfig =
     (case get_prop gatewayConfig ''gateway'' of
        Json g \<Rightarrow>
          if g = JNull then Throws (exception_message TypeError)
          else through_gateway transaction g
      | _ \<Rightarrow> Throws (exception_message TypeError))"

text \<open>The outer \<open>catch\<close> of \<open>main\<close>.\<close>

definition process_catch :: "database \<Rightarrow> process_input \<Rightarrow> string \<Rightarrow> process_result \<times> database" where
  "process_catch db input msg =
     (\<lparr> res_success = False, res_message = ''Payment processing failed'',
        res_transactionId = None, res_gatewayUsed = None,
        res_gatewayTransactionId = Arg_undefined, res_error = Some msg \<rparr>,
      updateTransactionStatus db (transactionId input) Failed Arg_null
        (Arg (JObj [(''error'', JStr msg)])))"

text \<open>Step 1 of \<open>main\<close>: the read of the transaction and the two checks on it.\<close>

definition process_load :: "database \<Rightarrow> process_input \<Rightarrow> string + transaction_row" where
  "process_load db input =
     (case transactions_by_pk db (transactionId input) of
        None \<Rightarrow> Inl ''Transaction not found''
      | Some transaction \<Rightarrow>
          if status transaction \<noteq> Pending
          then Inl (''Transaction is already '' @ status_name (status transaction))
          else Inr transaction)"

text \<open>Step 2 of \<open>main\<close>: \<open>updateTransactionStatus(hasura, input.transactionId, "processing")\<close>.\<close>

definition process_transition :: "process_input \<Rightarrow> database \<Rightarrow> database" where
  "process_transition input db =
     updateTransactionStatus db (transactionId input) Processing Arg_undefined Arg_undefined"

text \<open>
  Steps 3 to 6 of \<open>main\<close>, for the transaction that step 1 has read. \<open>main\<close> passes
  the selected gateway itself to \<open>processPaymentThroughGateway\<close>. \<open>elapsed\<close> is
  \<open>Date.now() - startTime\<close> when the attempt is logged. In the \<open>Throws\<close> branch the
  source has, between the log of the failed attempt and the rethrow,
  \<open>if (input.routingStrategy === "failover") { }\<close> with an empty body, so the strategy
  changes nothing.
\<close>

definition process_payment ::
  "payment_processor \<Rightarrow> nat \<Rightarrow> transaction_row \<Rightarrow> process_input \<Rightarrow> database \<Rightarrow>
   process_result \<times> database" where
  "process_payment through_gateway elapsed transaction input db2 =
     (case selectGateway transaction
             (case routingStrategy input of
                None \<Rightarrow> ''default''
              | Some s \<Rightarrow> if s = [] then ''default'' else s) of
        None \<Rightarrow> process_catch db2 input ''No suitable gateway found for this transaction''
      | Some selectedGateway \<Rightarrow>
          (case processPaymentThroughGateway through_gateway transaction
                  (gateway_object selectedGateway) of
             Throws msg \<Rightarrow>
               process_catch
                 (logRoutingAttempt db2
                    \<lparr> ra_transaction_id = transactionId input,
                      ra_gateway_id = pg_id selectedGateway,
                      attempt_number = 1,
                      ra_status = Failed,
                      error_message = Some msg,
                      processing_time_ms = elapsed,
                      response_payload = None \<rparr>)
                 input msg
           | Returns paymentResult \<Rightarrow>
               (let db5 = logRoutingAttempt db2
                            \<lparr> ra_transaction_id = transactionId input,
                              ra_gateway_id = pg_id selectedGateway,
                              attempt_number = 1,
                              ra_status = Success,
                              error_message = None,
                              processing_time_ms = elapsed,
                              response_payload = Some (result_object paymentResult) \<rparr>;
                    db6 = updateTransactionStatus db5 (transactionId input) Success
                            (result_transactionId paymentResult)
                            (Arg (result_object paymentResult))
                in (\<lparr> res_success = True,
                       res_message = ''Payment processed successfully'',
                       res_transactionId = Some (transactionId input),
                       res_gatewayUsed = Some (pg_gateway_code selectedGateway),
                       res_gatewayTransactionId = result_transactionId paymentResult,
                       res_error = None \<rparr>,
                    db6))))"

text \<open>\<open>main\<close> of the workflow: step 1, then step 2, then steps 3 to 6.\<close>

definition process_main ::
  "payment_processor \<Rightarrow> nat \<Rightarrow> process_input \<Rightarrow> database \<Rightarrow> process_result \<times> database" where
  "process_main through_gateway elapsed input db =
     (case process_load db input of
        Inl msg \<Rightarrow> process_catch db input msg
      | Inr transaction \<Rightarrow>
          process_payment through_gateway elapsed transaction input
            (process_transition input db))"

subsection \<open>Concurrent invocations\<close>

text \<open>
  Every request of \<open>main\<close> to the store is awaited, so another invocation can run
  between two of them. An invocation is followed through the three parts of \<open>main\<close>
  above: it has not read yet, it has read a pending transaction, it has written the
  status \<open>processing\<close>, or it has returned.
\<close>

datatype invocation =
  Start
  | Loaded transaction_row
  | Transitioned transaction_row
  | Finished process_result

fun invocation_step ::
  "payment_processor \<Rightarrow> nat \<Rightarrow> process_input \<Rightarrow> invocation \<Rightarrow> database \<Rightarrow>
   invocation \<times> database" where
  "invocation_step through_gateway elapsed input Start db =
     (case process_load db input of
        Inl msg \<Rightarrow> (Finished (fst (process_catch db input msg)),
                    snd (process_catch db input msg))
      | Inr transaction \<Rightarrow> (Loaded transaction, db))"
| "invocation_step through_gateway elapsed input (Loaded transaction) db =
     (Transitioned transaction, process_transition input db)"
| "invocation_step through_gateway elapsed input (Transitioned transaction) db =
     (Finished (fst (process_payment through_gateway elapsed transaction input db)),
      snd (process_payment through_gateway elapsed transaction input db))"
| "invocation_step through_gateway elapsed input (Finished r) db = (Finished r, db)"

text \<open>
  Two invocations with the same input on one store; the schedule says which of them takes
  the next step (\<open>True\<close> the first, \<open>False\<close> the second).
\<close>

fun run_schedule ::
  "payment_processor \<Rightarrow> nat \<Rightarrow> process_input \<Rightarrow> bool list \<Rightarrow>
   invocation \<times> invocation \<times> database \<Rightarrow> invocation \<times> invocation \<times> database" where
  "run_schedule through_gateway elapsed input [] s = s"
| "run_schedule through_gateway elapsed input (first # schedule) (a, b, db) =
     (if first
      then run_schedule through_gateway elapsed input schedule
             (fst (invocation_step through_gateway elapsed input a db), b,
              snd (invocation_step through_gateway elapsed input a db))
      else run_schedule through_gateway elapsed input schedule
             (a, fst (invocation_step through_gateway elapsed input b db),
              snd (invocation_step through_gateway elapsed input b db)))"

section \<open>Gateway webhook handler (windmill/scripts/webhooks/gateway-webhook.ts)\<close>

subsection \<open>The handler\<close>

text \<open>\<open>data\<close> is \<open>JNull\<close> when the payload has no \<open>data\<close> or has \<open>null\<close> there.\<close>

record WebhookPayload =
  wp_gateway :: string
  event_type :: string
  data :: json
  signature :: "string option"
  headers :: "(string \<times> string) list option"
  body :: "string option"

record webhook_result =
  wr_success :: bool
  wr_message :: string
  wr_processed :: bool

text \<open>
  The factory of \<open>gateway-factory.ts\<close>: a registry from a code to a constructor, which
  throws or gives a gateway. Of a gateway only \<open>verifyWebhookSignature\<close> is used here:
  a function of the verification request (built from the payload alone) and of the
  configuration, returning a boolean or throwing (\<open>None\<close>).
\<close>

type_synonym gateway_impl = "WebhookPayload \<Rightarrow> gateway_config \<Rightarrow> bool option"

datatype gateway_constructor = Constructor_throws | Constructs gateway_impl

type_synonym gateway_factory = "string \<Rightarrow> gateway_constructor option"

definition createGateway :: "gateway_factory \<Rightarrow> string \<Rightarrow> gateway_impl option" where
  "createGateway gateways gatewayCode =
     (case gateways gatewayCode of
        None \<Rightarrow> None
      | Some Constructor_throws \<Rightarrow> None
      | Some (Constructs g) \<Rightarrow> Some g)"

definition getGatewayConfig :: "database \<Rightarrow> string \<Rightarrow> gateway_config option" where
  "getGatewayConfig db gatewayCode =
     (case filter (\<lambda>g. gc_gateway_code g = gatewayCode) (payment_gateways db) of
        [] \<Rightarrow> None
      | g # _ \<Rightarrow> Some g)"

definition verifyWebhookSignature ::
  "gateway_factory \<Rightarrow> WebhookPayload \<Rightarrow> database \<Rightarrow> bool" where
  "verifyWebhookSignature factory payload db =
     (case getGatewayConfig db (wp_gateway payload) of
        None \<Rightarrow> False
      | Some gatewayConfig \<Rightarrow>
          (case createGateway factory (gc_provider gatewayConfig) of
             None \<Rightarrow> True
           | Some gw \<Rightarrow>
               (case gw payload gatewayConfig of
                  None \<Rightarrow> False
                | Some valid \<Rightarrow> valid)))"

text \<open>
  The three extractors. Each starts by reading a property of \<open>payload.data\<close>, which
  throws a \<open>TypeError\<close> when \<open>data\<close> is \<open>null\<close> or \<open>undefined\<close>.
\<close>

definition extractGatewayTransactionId :: "WebhookPayload \<Rightarrow> js_exception + js_value" where
  "extractGatewayTransactionId payload =
     (let d = data payload in
      if d = JNull then Inl TypeError
      else if wp_gateway payload = ''stripe'' then
        Inr (js_or (opt_prop (get_prop d ''object'') ''id'') (get_prop d ''id''))
      else if wp_gateway payload = ''razorpay'' then
        Inr (js_or
               (opt_prop (opt_prop (opt_prop (get_prop d ''payload'') ''payment'') ''entity'') ''id'')
               (opt_prop (get_prop d ''entity'') ''id''))
      else if wp_gateway payload = ''paypal'' then
        Inr (js_or (opt_prop (get_prop d ''resource'') ''id'') (get_prop d ''id''))
      else Inr (js_or (get_prop d ''transaction_id'') (get_prop d ''id'')))"

definition extractRefundAmount :: "js_builtins \<Rightarrow> WebhookPayload \<Rightarrow> js_exception + js_value" where
  "extractRefundAmount B payload =
     (let d = data payload in
      if d = JNull then Inl TypeError
      else if wp_gateway payload = ''stripe'' then
        Inr (div_100 B (opt_prop (get_prop d ''object'') ''amount_refunded''))
      else if wp_gateway payload = ''razorpay'' then
        Inr (div_100 B
               (opt_prop (opt_prop (opt_prop (get_prop d ''payload'') ''refund'') ''entity'')
                  ''amount''))
      else if wp_gateway payload = ''paypal'' then
        Inr (parseFloat B
               (js_or (opt_prop (opt_prop (get_prop d ''resource'') ''amount'') ''value'')
                  (Json (JNum 0))))
      else Inr (js_or (get_prop d ''refund_amount'') (Json (JNum 0))))"

definition extractTransactionId :: "WebhookPayload \<Rightarrow> js_exception + js_value" where
  "extractTransactionId payload =
     (let d = data payload in
      if d = JNull then Inl TypeError
      else Inr (js_or (opt_prop (get_prop d ''metadata'') ''transaction_id'')
                  (js_or (get_prop d ''reference'')
                     (js_or (get_prop d ''order_id'') (Json (JStr []))))))"

text \<open>
  The query \<open>GetTransactionByGatewayId\<close>: the rows whose \<open>gateway_transaction_id\<close> is
  the given string (none when the extracted value is not a string).
\<close>

definition transactions_by_gateway_id :: "database \<Rightarrow> js_value \<Rightarrow> transaction_row list" where
  "transactions_by_gateway_id db v =
     (case v of
        Json (JStr s) \<Rightarrow> filter (\<lambda>r. gateway_transaction_id r = Some s) (transactions db)
      | _ \<Rightarrow> [])"

text \<open>The object a handler returns for \<open>updateTransaction\<close>.\<close>

record transaction_update =
  upd_transaction_id :: string
  upd_status :: transaction_status
  upd_gateway_response :: json
  upd_metadata :: "(string \<times> json) list option"
  notify_merchant :: bool

definition handlePaymentSuccess ::
  "WebhookPayload \<Rightarrow> database \<Rightarrow> js_exception + transaction_update option" where
  "handlePaymentSuccess payload db =
     (case extractGatewayTransactionId payload of
        Inl e \<Rightarrow> Inl e
      | Inr gatewayTransactionId \<Rightarrow>
          (case transactions_by_gateway_id db gatewayTransactionId of
             [] \<Rightarrow> Inr None
           | transaction # _ \<Rightarrow>
               if status transaction \<noteq> Processing then Inr None
               else Inr (Some \<lparr> upd_transaction_id = txn_id transaction,
                                 upd_status = Success,
                                 upd_gateway_response = data payload,
                                 upd_metadata = None,
                                 notify_merchant = True \<rparr>)))"

definition handlePaymentFailure ::
  "WebhookPayload \<Rightarrow> database \<Rightarrow> js_exception + transaction_update option" where
  "handlePaymentFailure payload db =
     (case extractGatewayTransactionId payload of
        Inl e \<Rightarrow> Inl e
      | Inr gatewayTransactionId \<Rightarrow>
          (case transactions_by_gateway_id db gatewayTransactionId of
             [] \<Rightarrow> Inr None
           | transaction # _ \<Rightarrow>
               Inr (Some \<lparr> upd_transaction_id = txn_id transaction,
                            upd_status = Failed,
                            upd_gateway_response = data payload,
                            upd_metadata = None,
                            notify_merchant = True \<rparr>)))"

definition handleRefundProcessed ::
  "js_builtins \<Rightarrow> WebhookPayload \<Rightarrow> database \<Rightarrow> js_exception + transaction_update option" where
  "handleRefundProcessed B payload db =
     (case extractGatewayTransactionId payload of
        Inl e \<Rightarrow> Inl e
      | Inr gatewayTransactionId \<Rightarrow>
          (case extractRefundAmount B payload of
             Inl e \<Rightarrow> Inl e
           | Inr refundAmount \<Rightarrow>
               (case transactions_by_gateway_id db gatewayTransactionId of
                  [] \<Rightarrow> Inr None
                | transaction # _ \<Rightarrow>
                    Inr (Some \<lparr> upd_transaction_id = txn_id transaction,
                                 upd_status =
                                   (if js_ge B refundAmount (txn_amount transaction)
                                    then Refunded else Success),
                                 upd_gateway_response = data payload,
                                 upd_metadata =
                                   Some (case json_of_value refundAmount of
                                           None \<Rightarrow> []
                                         | Some v \<Rightarrow> [(''refund_amount'', v)]),
                                 notify_merchant = True \<rparr>))))"

definition handleDisputeCreated :: "WebhookPayload \<Rightarrow> database \<Rightarrow> js_exception + database" where
  "handleDisputeCreated payload db =
     (case extractTransactionId payload of
        Inl e \<Rightarrow> Inl e
      | Inr tid \<Rightarrow>
          Inr (db \<lparr> audit_logs := audit_logs db @
                      [\<lparr> entity_type = ''transaction'',
                         entity_id = (case json_of_value tid of None \<Rightarrow> JNull | Some v \<Rightarrow> v),
                         action = ''dispute_created'',
                         changes = data payload \<rparr>] \<rparr>))"

text \<open>\<open>logWebhook\<close>: the new row takes the next identifier, which is returned.\<close>

definition logWebhook ::
  "database \<Rightarrow> string \<Rightarrow> string \<Rightarrow> json \<Rightarrow> string \<Rightarrow> nat \<times> database" where
  "logWebhook db src ev pl gw =
     (length (webhooks db),
      db \<lparr> webhooks := webhooks db @
             [\<lparr> wh_id = length (webhooks db), wh_source = src, wh_event_type = ev,
                wh_payload = pl, wh_gateway_code = gw, processed = False \<rparr>] \<rparr>)"

definition markWebhookProcessed :: "database \<Rightarrow> nat \<Rightarrow> bool \<Rightarrow> database" where
  "markWebhookProcessed db webhookId p =
     db \<lparr> webhooks := map (\<lambda>w. if wh_id w = webhookId then w \<lparr> processed := p \<rparr> else w)
                         (webhooks db) \<rparr>"

text \<open>\<open>_append\<close> on the \<open>jsonb\<close> column: the keys of the right operand win.\<close>

definition jsonb_append ::
  "(string \<times> json) list \<Rightarrow> (string \<times> json) list \<Rightarrow> (string \<times> json) list" where
  "jsonb_append old new = filter (\<lambda>kv. fst kv \<notin> fst ` set new) old @ new"

definition updateTransaction :: "database \<Rightarrow> transaction_update \<Rightarrow> database" where
  "updateTransaction db upd =
     update_transactions_by_pk db (upd_transaction_id upd)
       (\<lambda>r. r \<lparr> status := upd_status upd,
                gateway_response := Some (upd_gateway_response upd),
                metadata := (case upd_metadata upd of
                               None \<Rightarrow> metadata r
                             | Some m \<Rightarrow> jsonb_append (metadata r) m) \<rparr>)"

definition notifyMerchant :: "database \<Rightarrow> string \<Rightarrow> string \<Rightarrow> database" where
  "notifyMerchant db tid eventType =
     (case transactions_by_pk db tid of
        None \<Rightarrow> db
      | Some transaction \<Rightarrow>
          (case merchant_webhook_url transaction of
             None \<Rightarrow> db
           | Some url \<Rightarrow>
               if url = [] then db
               else db \<lparr> notifications := notifications db @
                           [\<lparr> note_url = url, note_event = eventType,
                              note_transaction_id = tid,
                              note_status = status transaction \<rparr>] \<rparr>))"

text \<open>
  The \<open>switch\<close> of step 3: the flag \<open>processed\<close>, the update for step 4 and the store
  afterwards, or the exception a handler throws.
\<close>

definition with_update ::
  "js_exception + transaction_update option \<Rightarrow> database \<Rightarrow>
   js_exception + (bool \<times> transaction_update option \<times> database)" where
  "with_update r db = (case r of Inl e \<Rightarrow> Inl e | Inr u \<Rightarrow> Inr (True, u, db))"

definition dispatch_event ::
  "js_builtins \<Rightarrow> WebhookPayload \<Rightarrow> database \<Rightarrow>
   js_exception + (bool \<times> transaction_update option \<times> database)" where
  "dispatch_event B payload db =
     (let ev = event_type payload in
      if ev = ''payment.success'' \<or> ev = ''payment_capture.completed''
        then with_update (handlePaymentSuccess payload db) db
      else if ev = ''payment.failed'' \<or> ev = ''payment_capture.failed''
        then with_update (handlePaymentFailure payload db) db
      else if ev = ''refund.processed''
        then with_update (handleRefundProcessed B payload db) db
      else if ev = ''dispute.created''
        then (case handleDisputeCreated payload db of
                Inl e \<Rightarrow> Inl e
              | Inr db' \<Rightarrow> Inr (True, None, db'))
      else Inr (False, None, db))"

definition webhook_failure :: "string \<Rightarrow> webhook_result" where
  "webhook_failure msg = \<lparr> wr_success = False, wr_message = msg, wr_processed = False \<rparr>"

text \<open>\<open>main\<close> of the handler; the \<open>catch\<close> keeps what the store holds at the throw.\<close>

definition webhook_main ::
  "gateway_factory \<Rightarrow> js_builtins \<Rightarrow> WebhookPayload \<Rightarrow> database \<Rightarrow>
   webhook_result \<times> database" where
  "webhook_main factory B payload db =
     (if \<not> verifyWebhookSignature factory payload db
      then (webhook_failure ''Invalid webhook signature'', db)
      else
        (let (webhookId, db2) =
               logWebhook db ''gateway'' (event_type payload) (data payload) (wp_gateway payload)
         in case dispatch_event B payload db2 of
              Inl e \<Rightarrow> (webhook_failure (exception_message e), db2)
            | Inr (was_processed, transactionUpdate, db3) \<Rightarrow>
                (let db4 = (case transactionUpdate of
                              None \<Rightarrow> db3
                            | Some upd \<Rightarrow> updateTransaction db3 upd);
                     db5 = markWebhookProcessed db4 webhookId was_processed;
                     db6 = (case transactionUpdate of
                              None \<Rightarrow> db5
                            | Some upd \<Rightarrow>
                                if notify_merchant upd
                                then notifyMerchant db5 (upd_transaction_id upd)
                                       (event_type payload)
                                else db5)
                 in (\<lparr> wr_success = True,
                        wr_message = ''Webhook processed successfully'',
                        wr_processed = was_processed \<rparr>,
                     db6))))"

section \<open>Example inputs\<close>

subsection \<open>Routing engine\<close>

text \<open>
  A transaction of 500.00 INR paid by UPI, and two bindings: razorpay with priority 1 and
  a fee of 2 percent, stripe with priority 2 and a fee of 2.9 percent (the fee
  percentage is stored as a fraction, as in the seed data).
\<close>

definition scenario_transaction :: routing_transaction where
  "scenario_transaction =
     \<lparr> amount = 500, currency = ''INR'', payment_method = ''upi'', merchant_id = ''merchant-1'' \<rparr>"

definition scenario_razorpay :: available_gateway where
  "scenario_razorpay =
     \<lparr> gateway_id = ''gw-razorpay'', gateway_code = ''razorpay'', priority = 1,
       fee_percentage = 2 / 100, fee_fixed = 0 \<rparr>"

definition scenario_stripe :: available_gateway where
  "scenario_stripe =
     \<lparr> gateway_id = ''gw-stripe'', gateway_code = ''stripe'', priority = 2,
       fee_percentage = 29 / 1000, fee_fixed = 0 \<rparr>"

definition no_conditions :: rule_conditions where
  "no_conditions =
     \<lparr> cond_amount = None, cond_currency = None, cond_payment_method = None,
       cond_time_of_day = None \<rparr>"

definition prefer_gateway :: "string \<Rightarrow> rule_actions" where
  "prefer_gateway code =
     \<lparr> preferred_gateway = Some code, avoided_gateway = None, distribution = None,
       use_priority = False \<rparr>"

text \<open>The rule \<open>{payment_method: "upi"}\<close> with the action \<open>{preferred_gateway: "razorpay"}\<close>.\<close>

definition scenario_upi_rule :: routing_rule where
  "scenario_upi_rule =
     \<lparr> rule_name = ''UPI to Razorpay'', rule_type = ''method_based'', rule_priority = 1,
       conditions = no_conditions \<lparr> cond_payment_method := Some ''upi'' \<rparr>,
       actions = prefer_gateway ''razorpay'' \<rparr>"

text \<open>An aggregate row with a success rate of 50 percent.\<close>

definition failing_aggregate :: "string \<Rightarrow> health_aggregate" where
  "failing_aggregate gid =
     \<lparr> agg_gateway_id = gid, avg_success_rate = Some 50,
       avg_average_response_time_ms = Some 200 \<rparr>"

text \<open>A rule that prefers stripe between 18 and 23 hours.\<close>

definition evening_rule :: routing_rule where
  "evening_rule =
     \<lparr> rule_name = ''Evening to Stripe'', rule_type = ''gateway_priority'', rule_priority = 1,
       conditions = no_conditions
         \<lparr> cond_time_of_day := Some \<lparr> window_start = Some 18, window_end = Some 23 \<rparr> \<rparr>,
       actions = prefer_gateway ''stripe'' \<rparr>"

subsection \<open>Payment processing workflow\<close>

definition gateway_a :: PaymentGateway where
  "gateway_a =
     \<lparr> pg_id = ''gw-a'', pg_gateway_code = ''gateway_a'', provider = ''stripe'',
       credentials = JNull \<rparr>"

definition gateway_b :: PaymentGateway where
  "gateway_b =
     \<lparr> pg_id = ''gw-b'', pg_gateway_code = ''gateway_b'', provider = ''razorpay'',
       credentials = JNull \<rparr>"

text \<open>A pending transaction of a merchant with two active gateways and no rule.\<close>

definition pending_transaction :: transaction_row where
  "pending_transaction =
     \<lparr> txn_id = ''txn-1'', txn_amount = 500, txn_currency = ''INR'',
       txn_payment_method = ''upi'', customer_email = None, metadata = [],
       status = Pending, gateway_transaction_id = None, gateway_response = None,
       merchant_gateways =
         [\<lparr> gateway = gateway_a, mg_priority = 1, mg_is_active = True \<rparr>,
          \<lparr> gateway = gateway_b, mg_priority = 2, mg_is_active = True \<rparr>],
       routing_rules = [],
       merchant_webhook_url = Some ''https://merchant.example/hook'' \<rparr>"

text \<open>The same transaction after a payment: in the given status, with the gateway's identifier.\<close>

definition settled_transaction :: "transaction_status \<Rightarrow> transaction_row" where
  "settled_transaction st =
     pending_transaction
       \<lparr> status := st, gateway_transaction_id := Some ''pay_1'',
         gateway_response := Some (JObj [(''status'', JStr ''captured'')]) \<rparr>"

definition stripe_config :: gateway_config where
  "stripe_config =
     \<lparr> gc_gateway_code = ''stripe'', gc_provider = ''stripe'', gc_credentials = JNull,
       webhook_secret = Some (JStr ''whsec'') \<rparr>"

definition store_of :: "transaction_row \<Rightarrow> database" where
  "store_of t =
     \<lparr> transactions = [t], routing_attempts = [], webhooks = [], audit_logs = [],
       payment_gateways = [stripe_config], notifications = [] \<rparr>"

text \<open>
  The statements behind the first read of \<open>processPaymentThroughGateway\<close>, taken to
  accept every payment.
\<close>

definition gateway_accepts :: payment_processor where
  "gateway_accepts t g =
     Returns \<lparr> result_transactionId = Arg ''pay_1'',
               result_object = JObj [(''transactionId'', JStr ''pay_1''),
                                     (''success'', JBool True)] \<rparr>"

definition trigger :: "string option \<Rightarrow> process_input" where
  "trigger strategy = \<lparr> transactionId = ''txn-1'', routingStrategy = strategy \<rparr>"

text \<open>
  What \<open>main\<close> returns when the payment call throws the \<open>TypeError\<close>, one failed
  attempt on the first gateway, and the transaction after the \<open>catch\<close>.
\<close>

definition type_error_result :: process_result where
  "type_error_result =
     \<lparr> res_success = False, res_message = ''Payment processing failed'',
       res_transactionId = None, res_gatewayUsed = None,
       res_gatewayTransactionId = Arg_undefined,
       res_error = Some (exception_message TypeError) \<rparr>"

definition failed_attempt :: "nat \<Rightarrow> routing_attempt" where
  "failed_attempt elapsed =
     \<lparr> ra_transaction_id = ''txn-1'', ra_gateway_id = ''gw-a'', attempt_number = 1,
       ra_status = Failed, error_message = Some (exception_message TypeError),
       processing_time_ms = elapsed, response_payload = None \<rparr>"

definition failed_transaction :: transaction_row where
  "failed_transaction =
     pending_transaction
       \<lparr> status := Failed,
         gateway_response := Some (JObj [(''error'', JStr (exception_message TypeError))]) \<rparr>"

subsection \<open>Webhook handler\<close>

text \<open>No string of the examples is converted to a number.\<close>

definition no_string_numbers :: js_builtins where
  "no_string_numbers =
     \<lparr> string_to_number = (\<lambda>s. None), parseFloat_string = (\<lambda>s. None) \<rparr>"

definition accepting_gateway :: gateway_impl where
  "accepting_gateway p c = Some True"

definition rejecting_gateway :: gateway_impl where
  "rejecting_gateway p c = Some False"

text \<open>A factory in which only the provider \<open>stripe\<close> is registered, and one with no entry.\<close>

definition factory_with :: "gateway_impl \<Rightarrow> gateway_factory" where
  "factory_with g code = (if code = ''stripe'' then Some (Constructs g) else None)"

definition empty_factory :: gateway_factory where
  "empty_factory code = None"

text \<open>A factory whose implementation, for every provider, accepts every signature.\<close>

definition accepting_factory :: gateway_factory where
  "accepting_factory code = Some (Constructs accepting_gateway)"

definition stripe_event :: "string \<Rightarrow> json \<Rightarrow> WebhookPayload" where
  "stripe_event ev obj =
     \<lparr> wp_gateway = ''stripe'', event_type = ev, data = JObj [(''object'', obj)],
       signature = Some ''t=1,v1=abc'', headers = None, body = None \<rparr>"

definition failed_event :: WebhookPayload where
  "failed_event = stripe_event ''payment.failed'' (JObj [(''id'', JStr ''pay_1'')])"

definition paid_event :: WebhookPayload where
  "paid_event = stripe_event ''payment.success'' (JObj [(''id'', JStr ''pay_1'')])"

text \<open>A refund of the given number of hundredths of the currency unit.\<close>

definition refund_event :: "rat \<Rightarrow> WebhookPayload" where
  "refund_event cents =
     stripe_event ''refund.processed''
       (JObj [(''id'', JStr ''pay_1''), (''amount_refunded'', JNum cents)])"

section \<open>Properties of the routing engine\<close>

lemmas routing_defs =
  routing_main_def scored_gateways_def score_gateway_def getGatewayHealthMetrics_def
  health_of_aggregate_def or_default_def find_health_def passes_health_filter_def
  sort_by_score_def decision_of_def calculateFee_def evaluateRule_def amount_ok_def
  below_min_def above_max_def time_ok_def before_start_def after_end_def
  applyRuleScoreAdjustment_def available_gateway.extend_def

lemmas scenario_defs =
  scenario_transaction_def scenario_razorpay_def scenario_stripe_def scenario_upi_rule_def
  no_conditions_def prefer_gateway_def failing_aggregate_def
  evening_rule_def

subsection \<open>The worked scenario\<close>

text \<open>
  C4, as stated, fails: in the scenario (500.00 INR by UPI, razorpay and stripe, no
  health metric stored, one rule preferring razorpay for UPI) the score of the selected
  gateway is not 280.
\<close>

theorem scenario_score_is_not_280:
  "map_sum id decision_score
     (routing_main scenario_transaction [scenario_razorpay, scenario_stripe] []
        [scenario_upi_rule] 10) \<noteq> Inr 280"
  by (simp add: routing_defs scenario_defs)

lemma scenario_run:
  "routing_main scenario_transaction [scenario_razorpay, scenario_stripe] []
     [scenario_upi_rule] hour =
   Inr \<lparr> decision_gateway_id = ''gw-razorpay'', decision_gateway_code = ''razorpay'',
         decision_reason = [Priority_reason 1, Fee_reason 10, Rule_reason ''UPI to Razorpay'' 50],
         decision_score = 100 + 45 - 10 + 50 \<rparr>"
  by (simp add: routing_defs scenario_defs)

lemma apply_rules_score:
  "fst (apply_rules transaction hour gw rules (sc, rs)) =
   sc + sum_list (map (\<lambda>rule. applyRuleScoreAdjustment rule gw)
                    (filter (\<lambda>rule. evaluateRule rule transaction gw hour) rules))"
  by (induction rules arbitrary: sc rs) (simp_all add: Let_def)

lemma no_metric_stored:
  "(find_health (getGatewayHealthMetrics healthResponse) gid = None) =
   (gid \<notin> agg_gateway_id ` set healthResponse)"
  by (induction healthResponse)
     (auto simp: find_health_def getGatewayHealthMetrics_def health_of_aggregate_def)

lemma score_without_metric:
  assumes "find_health healthMetrics (gateway_id gw) = None"
  shows "score (score_gateway transaction healthMetrics rules hour gw) =
           100 + (10 - priority gw) * 5
           - calculateFee (amount transaction) (fee_percentage gw) (fee_fixed gw)
           + sum_list (map (\<lambda>rule. applyRuleScoreAdjustment rule gw)
                         (filter (\<lambda>rule. evaluateRule rule transaction gw hour) rules))"
  by (simp add: score_gateway_def assms Let_def case_prod_beta available_gateway.defs
      apply_rules_score)

lemma scored_without_metric:
  assumes "find_health healthMetrics (gateway_id gw) = None"
  shows "score_gateway transaction healthMetrics rules hour gw =
         score_gateway transaction [] rules hour gw"
proof -
  have "find_health [] (gateway_id gw) = None" by (simp add: find_health_def)
  with assms show ?thesis by (simp add: score_gateway_def)
qed

text \<open>
  C4, amended: in the scenario the engine selects razorpay with the score
  185 = 100 (base) + 45 (priority) - 10 (fee) + 50 (rule), at every hour. In particular a
  candidate with no health metric receives no health contribution: for every
  transaction, candidate, rule list and hour, when no aggregate row is stored for the
  candidate its score is the base, plus the priority term, minus the fee, plus the
  adjustments of the rules that match, and score and reasons are those computed with no
  health metrics at all.
\<close>

theorem scenario_selects_razorpay_185:
  "routing_main scenario_transaction [scenario_razorpay, scenario_stripe] []
     [scenario_upi_rule] hour =
   Inr \<lparr> decision_gateway_id = ''gw-razorpay'', decision_gateway_code = ''razorpay'',
         decision_reason = [Priority_reason 1, Fee_reason 10, Rule_reason ''UPI to Razorpay'' 50],
         decision_score = 100 + 45 - 10 + 50 \<rparr>
   \<and> (gateway_id gw \<notin> agg_gateway_id ` set healthResponse \<longrightarrow>
        score (score_gateway transaction (getGatewayHealthMetrics healthResponse)
                 routingRules h gw) =
          100 + (10 - priority gw) * 5
          - calculateFee (amount transaction) (fee_percentage gw) (fee_fixed gw)
          + sum_list (map (\<lambda>rule. applyRuleScoreAdjustment rule gw)
                        (filter (\<lambda>rule. evaluateRule rule transaction gw h) routingRules))
        \<and> score_gateway transaction (getGatewayHealthMetrics healthResponse) routingRules h gw =
          score_gateway transaction [] routingRules h gw)"
proof -
  have general: "score (score_gateway transaction (getGatewayHealthMetrics healthResponse)
                 routingRules h gw) =
          100 + (10 - priority gw) * 5
          - calculateFee (amount transaction) (fee_percentage gw) (fee_fixed gw)
          + sum_list (map (\<lambda>rule. applyRuleScoreAdjustment rule gw)
                        (filter (\<lambda>rule. evaluateRule rule transaction gw h) routingRules))
        \<and> score_gateway transaction (getGatewayHealthMetrics healthResponse) routingRules h gw =
          score_gateway transaction [] routingRules h gw"
    if "gateway_id gw \<notin> agg_gateway_id ` set healthResponse"
  proof -
    have none: "find_health (getGatewayHealthMetrics healthResponse) (gateway_id gw) = None"
      using that by (simp add: no_metric_stored)
    show ?thesis
      using score_without_metric [OF none] scored_without_metric [OF none] by (rule conjI)
  qed
  from scenario_run general show ?thesis by blast
qed

text \<open>
  C4, amended, at the scenario with a metric stored for stripe only: razorpay, with no
  metric, has the score 185.
\<close>

theorem scenario_selects_razorpay_185_witness:
  "gateway_id scenario_razorpay \<notin> agg_gateway_id ` set [failing_aggregate ''gw-stripe''] \<and>
   score (score_gateway scenario_transaction
            (getGatewayHealthMetrics [failing_aggregate ''gw-stripe''])
            [scenario_upi_rule] 10 scenario_razorpay) = 185"
proof -
  have none: "gateway_id scenario_razorpay \<notin>
              agg_gateway_id ` set [failing_aggregate ''gw-stripe'']"
    by (simp add: scenario_defs)
  note T = scenario_selects_razorpay_185
             [of 10 scenario_razorpay "[failing_aggregate ''gw-stripe'']" scenario_transaction
                 "[scenario_upi_rule]" 10,
              THEN conjunct2, THEN mp, OF none, THEN conjunct1]
  have "100 + (10 - priority scenario_razorpay) * 5
          - calculateFee (amount scenario_transaction) (fee_percentage scenario_razorpay)
              (fee_fixed scenario_razorpay)
          + sum_list (map (\<lambda>rule. applyRuleScoreAdjustment rule scenario_razorpay)
                        (filter (\<lambda>rule. evaluateRule rule scenario_transaction
                                            scenario_razorpay 10) [scenario_upi_rule])) = 185"
    by (simp add: routing_defs scenario_defs)
  with T have "score (score_gateway scenario_transaction
            (getGatewayHealthMetrics [failing_aggregate ''gw-stripe''])
            [scenario_upi_rule] 10 scenario_razorpay) = 185"
    by simp
  with none show ?thesis by (rule conjI)
qed

subsection \<open>Dependence on the hour\<close>

text \<open>
  C8, as stated, fails: with the same transaction, bindings, health metrics and rules,
  an evaluation at 10 hours and one at 20 hours select different gateways.
\<close>

theorem selection_depends_on_hour:
  "routing_main scenario_transaction [scenario_razorpay, scenario_stripe] [] [evening_rule] 10
   \<noteq> routing_main scenario_transaction [scenario_razorpay, scenario_stripe] [] [evening_rule] 20"
  by (simp add: routing_defs scenario_defs)

lemma evaluateRule_hour:
  "cond_time_of_day (conditions rule) = None \<Longrightarrow>
   evaluateRule rule transaction gw h1 = evaluateRule rule transaction gw h2"
  by (simp add: evaluateRule_def time_ok_def Let_def)

lemma apply_rules_hour:
  "\<forall>rule\<in>set rules. cond_time_of_day (conditions rule) = None \<Longrightarrow>
   apply_rules transaction h1 gw rules acc = apply_rules transaction h2 gw rules acc"
proof (induction rules arbitrary: acc)
  case Nil
  show ?case by simp
next
  case (Cons rule rules)
  obtain sc rs where acc: "acc = (sc, rs)" by (cases acc)
  have ev: "evaluateRule rule transaction gw h1 = evaluateRule rule transaction gw h2"
    using Cons.prems by (simp add: evaluateRule_hour)
  have rest: "\<forall>r\<in>set rules. cond_time_of_day (conditions r) = None"
    using Cons.prems by simp
  show ?case
    unfolding acc by (simp add: ev Let_def Cons.IH [OF rest])
qed

lemma score_gateway_hour:
  assumes "\<forall>rule\<in>set rules. cond_time_of_day (conditions rule) = None"
  shows "score_gateway transaction hm rules h1 gw = score_gateway transaction hm rules h2 gw"
  unfolding score_gateway_def
  by (simp add: apply_rules_hour [OF assms, where ?h1.0 = h1 and ?h2.0 = h2])

text \<open>
  C8, amended: the selection is a function of the transaction, the candidate bindings,
  the health metrics, the rules and the local hour at which it runs; when no rule has a
  \<open>time_of_day\<close> condition, any two evaluations with identical bindings, metrics and
  rules yield the identical selected gateway and score breakdown, whatever the hours.
\<close>

theorem selection_independent_of_hour:
  assumes "\<forall>rule\<in>set routingRules. cond_time_of_day (conditions rule) = None"
  shows "routing_main transaction availableGateways healthResponse routingRules h1 =
         routing_main transaction availableGateways healthResponse routingRules h2"
proof -
  have "scored_gateways transaction availableGateways healthResponse routingRules h1 =
        scored_gateways transaction availableGateways healthResponse routingRules h2"
    unfolding scored_gateways_def
    by (simp add: score_gateway_hour [OF assms, where ?h1.0 = h1 and ?h2.0 = h2])
  then show ?thesis by (simp add: routing_main_def)
qed

text \<open>C8, amended, at the scenario: its only rule has no \<open>time_of_day\<close> condition.\<close>

theorem selection_independent_of_hour_witness:
  "cond_time_of_day (conditions scenario_upi_rule) = None \<and>
   routing_main scenario_transaction [scenario_razorpay, scenario_stripe] []
     [scenario_upi_rule] 3 =
   routing_main scenario_transaction [scenario_razorpay, scenario_stripe] []
     [scenario_upi_rule] 21"
proof -
  have c: "cond_time_of_day (conditions scenario_upi_rule) = None"
    by (simp add: scenario_defs)
  then have h: "\<forall>rule\<in>set [scenario_upi_rule]. cond_time_of_day (conditions rule) = None"
    by simp
  show ?thesis using c selection_independent_of_hour [OF h] by blast
qed

subsection \<open>The health filter\<close>

text \<open>
  C5, as stated, fails: with one candidate, whose metric has a success rate of 50 percent,
  the filter is applied, nothing survives, and the engine fails with "no healthy
  gateways" although the candidate list is not empty.
\<close>

theorem all_unhealthy_is_an_error:
  "[scenario_razorpay] \<noteq> [] \<and>
   routing_main scenario_transaction [scenario_razorpay] [failing_aggregate ''gw-razorpay'']
     [] 10 = Inl No_healthy_gateways"
  by (simp add: routing_defs scenario_defs)

lemma gateway_id_score_gateway:
  "gateway_id (score_gateway transaction hm rules hour gw) = gateway_id gw"
  by (simp add: score_gateway_def available_gateway.defs Let_def split: prod.splits option.splits)

lemma sort_key_head:
  assumes "sort_key f xs = y # ys"
  shows "y \<in> set xs \<and> (\<forall>x\<in>set xs. f y \<le> f x)"
proof -
  have mem: "set (y # ys) = set xs"
    using assms set_sort [of f xs] by simp
  have "sorted (map f (y # ys))"
    using assms sorted_sort_key [of f xs] by simp
  then have "\<forall>z\<in>set ys. f y \<le> f z" by simp
  then have "\<forall>x\<in>set (y # ys). f y \<le> f x" by simp
  with mem show ?thesis by auto
qed

lemma sort_key_Nil: "(sort_key f xs = []) = (xs = [])"
  using length_sort [of f xs] by (metis length_0_conv)

lemma metric_health:
  assumes "find_health (getGatewayHealthMetrics healthResponse) gid = Some h"
  shows "is_healthy h = (success_rate h \<ge> 80 \<and> average_response_time_ms h \<le> 5000)"
proof -
  have "h \<in> set (getGatewayHealthMetrics healthResponse)"
    using assms by (auto simp: find_health_def find_Some_iff)
  then obtain m where "h = health_of_aggregate m"
    by (auto simp: getGatewayHealthMetrics_def)
  then show ?thesis by (simp add: health_of_aggregate_def)
qed

lemma passes_health_filter_scored:
  "passes_health_filter (getGatewayHealthMetrics healthResponse)
     (score_gateway transaction hm rules hour gw) =
   (\<not> (\<exists>h. find_health (getGatewayHealthMetrics healthResponse) (gateway_id gw) = Some h \<and>
            (success_rate h < 80 \<or> average_response_time_ms h > 5000)))"
proof (cases "find_health (getGatewayHealthMetrics healthResponse) (gateway_id gw)")
  case None
  then show ?thesis by (simp add: passes_health_filter_def gateway_id_score_gateway)
next
  case (Some h)
  then show ?thesis
    using metric_health [OF Some]
    by (auto simp: passes_health_filter_def gateway_id_score_gateway)
qed

text \<open>
  C5, amended: the health filter is applied unconditionally. A candidate is excluded
  exactly when it has a health metric with a success rate below 80 or an average
  latency above 5000 ms (a candidate with no metric is kept). With an empty candidate
  list the engine fails with "no available gateways"; it fails with "no healthy
  gateways" exactly when the list is not empty and every candidate is excluded;
  otherwise it returns a candidate that passed the filter and whose score is the highest
  among those that passed.
\<close>

theorem health_filter_always_applied:
  "((routing_main transaction availableGateways healthResponse routingRules hour =
       Inl No_available_gateways) = (availableGateways = []))
   \<and> ((routing_main transaction availableGateways healthResponse routingRules hour =
       Inl No_healthy_gateways) =
      (availableGateways \<noteq> [] \<and>
       (\<forall>g\<in>set availableGateways.
          \<exists>h. find_health (getGatewayHealthMetrics healthResponse) (gateway_id g) = Some h \<and>
              (success_rate h < 80 \<or> average_response_time_ms h > 5000))))
   \<and> (\<forall>d. routing_main transaction availableGateways healthResponse routingRules hour = Inr d
         \<longrightarrow> (\<exists>g\<in>set (scored_gateways transaction availableGateways healthResponse
                            routingRules hour).
                d = decision_of g \<and>
                passes_health_filter (getGatewayHealthMetrics healthResponse) g \<and>
                (\<forall>g'\<in>set (scored_gateways transaction availableGateways healthResponse
                             routingRules hour).
                   passes_health_filter (getGatewayHealthMetrics healthResponse) g'
                   \<longrightarrow> score g' \<le> score g)))"
proof -
  let ?hm = "getGatewayHealthMetrics healthResponse"
  let ?scored = "scored_gateways transaction availableGateways healthResponse routingRules hour"
  let ?kept = "filter (passes_health_filter ?hm) ?scored"
  have a: "(routing_main transaction availableGateways healthResponse routingRules hour =
       Inl No_available_gateways) = (availableGateways = [])"
    by (simp add: routing_main_def split: list.splits)
  have kept_Nil: "(?kept = []) =
      (\<forall>g\<in>set availableGateways.
          \<exists>h. find_health ?hm (gateway_id g) = Some h \<and>
              (success_rate h < 80 \<or> average_response_time_ms h > 5000))"
    by (simp add: filter_empty_conv scored_gateways_def passes_health_filter_scored)
  have b: "(routing_main transaction availableGateways healthResponse routingRules hour =
       Inl No_healthy_gateways) =
      (availableGateways \<noteq> [] \<and> ?kept = [])"
  proof (cases "sort_key (\<lambda>g. - score g) ?kept")
    case Nil
    then have "?kept = []" by (simp add: sort_key_Nil)
    with Nil show ?thesis by (simp add: routing_main_def sort_by_score_def)
  next
    case (Cons best rest)
    then have "?kept \<noteq> []" using sort_key_Nil [of "\<lambda>g. - score g" ?kept] by simp
    with Cons show ?thesis by (simp add: routing_main_def sort_by_score_def)
  qed
  have c: "\<exists>g\<in>set ?scored. d = decision_of g \<and> passes_health_filter ?hm g \<and>
                (\<forall>g'\<in>set ?scored. passes_health_filter ?hm g' \<longrightarrow> score g' \<le> score g)"
    if r: "routing_main transaction availableGateways healthResponse routingRules hour = Inr d"
    for d
  proof -
    from r obtain best rest where
      s: "sort_key (\<lambda>g. - score g) ?kept = best # rest" and d: "d = decision_of best"
      by (auto simp: routing_main_def sort_by_score_def split: if_splits list.splits)
    from sort_key_head [OF s]
    have mem: "best \<in> set ?kept" and le: "\<forall>x\<in>set ?kept. - score best \<le> - score x"
      by simp_all
    from mem have "best \<in> set ?scored" "passes_health_filter ?hm best" by simp_all
    moreover from le have "\<forall>g'\<in>set ?scored. passes_health_filter ?hm g' \<longrightarrow> score g' \<le> score best"
      by simp
    ultimately show ?thesis using d by blast
  qed
  show ?thesis using a b c kept_Nil by simp
qed

text \<open>
  C5, amended, at two inputs: both candidates with a failing metric, and only one of them.
\<close>

theorem health_filter_always_applied_witness:
  "[scenario_razorpay, scenario_stripe] \<noteq> [] \<and>
   routing_main scenario_transaction [scenario_razorpay, scenario_stripe]
     [failing_aggregate ''gw-razorpay'', failing_aggregate ''gw-stripe''] [] 10 =
   Inl No_healthy_gateways \<and>
   routing_main scenario_transaction [scenario_razorpay, scenario_stripe]
     [failing_aggregate ''gw-stripe''] [] 10 \<noteq> Inl No_healthy_gateways"
proof -
  have all_bad: "\<forall>g\<in>set [scenario_razorpay, scenario_stripe].
          \<exists>h. find_health (getGatewayHealthMetrics
                  [failing_aggregate ''gw-razorpay'', failing_aggregate ''gw-stripe''])
                 (gateway_id g) = Some h \<and>
              (success_rate h < 80 \<or> average_response_time_ms h > 5000)"
    by (simp add: routing_defs scenario_defs)
  have one_good: "\<not> (\<forall>g\<in>set [scenario_razorpay, scenario_stripe].
          \<exists>h. find_health (getGatewayHealthMetrics [failing_aggregate ''gw-stripe''])
                 (gateway_id g) = Some h \<and>
              (success_rate h < 80 \<or> average_response_time_ms h > 5000))"
    by (simp add: routing_defs scenario_defs)
  show ?thesis
    using all_bad one_good
      health_filter_always_applied [of scenario_transaction "[scenario_razorpay, scenario_stripe]"
        "[failing_aggregate ''gw-razorpay'', failing_aggregate ''gw-stripe'']" "[]" 10]
      health_filter_always_applied [of scenario_transaction "[scenario_razorpay, scenario_stripe]"
        "[failing_aggregate ''gw-stripe'']" "[]" 10]
    by blast
qed

section \<open>Properties of the payment processing workflow\<close>

lemmas process_defs =
  process_main_def process_load_def process_transition_def process_payment_def
  process_catch_def processPaymentThroughGateway_def gateway_object_def
  transactions_by_pk_def update_transactions_by_pk_def updateTransactionStatus_def
  logRoutingAttempt_def set_arg_def selectGateway_def sort_by_priority_def
  process_evaluateRule_def applyRuleAction_def

lemmas process_example_defs =
  gateway_a_def gateway_b_def pending_transaction_def settled_transaction_def
  stripe_config_def store_of_def gateway_accepts_def trigger_def type_error_result_def
  failed_attempt_def failed_transaction_def

subsection \<open>A trigger for a transaction that is not pending\<close>

text \<open>
  C1 at a transaction whose stored status is \<open>success\<close>: the caller receives the
  failure "Transaction is already success", and the \<open>catch\<close> of \<open>main\<close> has written
  the status \<open>failed\<close>, erased the gateway's transaction identifier and replaced the
  gateway response by the error.
\<close>

theorem duplicate_trigger_marks_failed:
  "process_main through_gateway elapsed (trigger None) (store_of (settled_transaction Success)) =
     (\<lparr> res_success = False, res_message = ''Payment processing failed'',
        res_transactionId = None, res_gatewayUsed = None,
        res_gatewayTransactionId = Arg_undefined,
        res_error = Some ''Transaction is already success'' \<rparr>,
      store_of (pending_transaction
        \<lparr> status := Failed, gateway_transaction_id := None,
          gateway_response := Some (JObj [(''error'', JStr ''Transaction is already success'')]) \<rparr>))"
  by (simp add: process_defs process_example_defs)

subsection \<open>Failover\<close>

lemma second_gateway_eligible:
  "map gateway (merchant_gateways pending_transaction) = [gateway_a, gateway_b]"
  by (simp add: pending_transaction_def)

lemma failover_run:
  "process_main through_gateway elapsed (trigger (Some ''failover''))
     (store_of pending_transaction) =
   (\<lparr> res_success = False, res_message = ''Payment processing failed'',
      res_transactionId = None, res_gatewayUsed = None,
      res_gatewayTransactionId = Arg_undefined, res_error = Some ''TypeError'' \<rparr>,
    (store_of (pending_transaction
        \<lparr> status := Failed,
          gateway_response := Some (JObj [(''error'', JStr ''TypeError'')]) \<rparr>))
      \<lparr> routing_attempts :=
          [\<lparr> ra_transaction_id = ''txn-1'', ra_gateway_id = ''gw-a'', attempt_number = 1,
             ra_status = Failed, error_message = Some ''TypeError'',
             processing_time_ms = elapsed, response_payload = None \<rparr>] \<rparr>)"
  by (simp add: process_defs process_example_defs)

text \<open>
  C2 at a pending transaction of a merchant with the gateways \<open>gateway_a\<close> and
  \<open>gateway_b\<close> and the strategy \<open>failover\<close>. The payment call on the selected
  \<open>gateway_a\<close> fails (it throws the \<open>TypeError\<close>, whatever the gateway packages would
  do). The workflow records the one failed attempt on \<open>gateway_a\<close>, makes no attempt on
  \<open>gateway_b\<close>, sets the transaction to \<open>failed\<close> and returns the failure.
\<close>

theorem failover_makes_no_second_attempt:
  "map gateway (merchant_gateways pending_transaction) = [gateway_a, gateway_b] \<and>
   process_main through_gateway elapsed (trigger (Some ''failover''))
     (store_of pending_transaction) =
   (\<lparr> res_success = False, res_message = ''Payment processing failed'',
      res_transactionId = None, res_gatewayUsed = None,
      res_gatewayTransactionId = Arg_undefined, res_error = Some ''TypeError'' \<rparr>,
    (store_of (pending_transaction
        \<lparr> status := Failed,
          gateway_response := Some (JObj [(''error'', JStr ''TypeError'')]) \<rparr>))
      \<lparr> routing_attempts :=
          [\<lparr> ra_transaction_id = ''txn-1'', ra_gateway_id = ''gw-a'', attempt_number = 1,
             ra_status = Failed, error_message = Some ''TypeError'',
             processing_time_ms = elapsed, response_payload = None \<rparr>] \<rparr>)"
  using second_gateway_eligible failover_run by (intro conjI)

subsection \<open>The transition from pending to processing\<close>

lemma update_of_settled:
  "map status
     (transactions
        (updateTransactionStatus (store_of (settled_transaction Success)) ''txn-1'' Processing
           Arg_undefined Arg_undefined)) = [Processing]"
  by (simp add: process_defs process_example_defs)

lemma both_read_then_both_write:
  "run_schedule gateway_accepts 120 (trigger None) [True, False, True, False]
     (Start, Start, store_of pending_transaction) =
   (Transitioned pending_transaction, Transitioned pending_transaction,
    store_of (pending_transaction \<lparr> status := Processing \<rparr>))"
  by (simp add: process_defs process_example_defs)

lemma both_run_to_the_end:
  "run_schedule gateway_accepts 120 (trigger None) [True, False]
     (Transitioned pending_transaction, Transitioned pending_transaction,
      store_of (pending_transaction \<lparr> status := Processing \<rparr>)) =
   (Finished type_error_result, Finished type_error_result,
    (store_of failed_transaction)
      \<lparr> routing_attempts := [failed_attempt 120, failed_attempt 120] \<rparr>)"
  by (simp add: process_defs process_example_defs)

lemma run_schedule_append:
  "run_schedule tg e input (xs @ ys) s =
   run_schedule tg e input ys (run_schedule tg e input xs s)"
proof (induction xs arbitrary: s)
  case Nil
  show ?case by simp
next
  case (Cons x xs)
  obtain a b db where s: "s = (a, b, db)" by (cases s)
  show ?case unfolding s by (simp add: Cons.IH)
qed

lemma both_invocations_end:
  "run_schedule gateway_accepts 120 (trigger None) [True, False, True, False, True, False]
     (Start, Start, store_of pending_transaction) =
   (Finished type_error_result, Finished type_error_result,
    (store_of failed_transaction)
      \<lparr> routing_attempts := [failed_attempt 120, failed_attempt 120] \<rparr>)"
proof -
  have "run_schedule gateway_accepts 120 (trigger None)
          ([True, False, True, False] @ [True, False])
          (Start, Start, store_of pending_transaction) =
        (Finished type_error_result, Finished type_error_result,
         (store_of failed_transaction)
           \<lparr> routing_attempts := [failed_attempt 120, failed_attempt 120] \<rparr>)"
    unfolding run_schedule_append both_read_then_both_write by (rule both_run_to_the_end)
  then show ?thesis by simp
qed

text \<open>
  C7, as stated, fails. The update to \<open>processing\<close> of a transaction whose stored
  status is \<open>success\<close> does not fail, it overwrites the status. And when two
  invocations for one pending transaction both read before either writes, both pass the
  check of step 1 and both write \<open>processing\<close>; run to the end, both return the failure
  of the payment call and two attempts are logged. Neither receives "already processed".
\<close>

theorem transition_ignores_stored_status:
  "map status
     (transactions
        (updateTransactionStatus (store_of (settled_transaction Success)) ''txn-1'' Processing
           Arg_undefined Arg_undefined)) = [Processing] \<and>
   run_schedule gateway_accepts 120 (trigger None) [True, False, True, False]
     (Start, Start, store_of pending_transaction) =
   (Transitioned pending_transaction, Transitioned pending_transaction,
    store_of (pending_transaction \<lparr> status := Processing \<rparr>)) \<and>
   run_schedule gateway_accepts 120 (trigger None) [True, False, True, False, True, False]
     (Start, Start, store_of pending_transaction) =
   (Finished type_error_result, Finished type_error_result,
    (store_of failed_transaction)
      \<lparr> routing_attempts := [failed_attempt 120, failed_attempt 120] \<rparr>)"
  using update_of_settled both_read_then_both_write both_invocations_end by (intro conjI)

lemma update_sets_processing:
  "\<forall>r\<in>set (transactions
              (updateTransactionStatus db tid Processing Arg_undefined Arg_undefined)).
      txn_id r = tid \<longrightarrow> status r = Processing"
  unfolding updateTransactionStatus_def update_transactions_by_pk_def
  by (simp add: ball_Un)

lemma update_keeps_ids:
  "map txn_id (transactions (updateTransactionStatus db tid st a b)) =
   map txn_id (transactions db)"
  by (induction "transactions db")
     (simp_all add: updateTransactionStatus_def update_transactions_by_pk_def)

lemma main_performs_transition:
  "process_load db input = Inr t \<longrightarrow>
   process_main tg e input db =
     process_payment tg e t input
       (updateTransactionStatus db (transactionId input) Processing
          Arg_undefined Arg_undefined)"
  by (simp add: process_main_def process_transition_def)

lemma read_rejects_other_status:
  "transactions_by_pk db (transactionId input) = Some t \<and> status t \<noteq> Pending \<longrightarrow>
   process_load db input = Inl (''Transaction is already '' @ status_name (status t))"
  by (simp add: process_load_def)

lemma read_accepts_pending:
  assumes "transactions_by_pk db (transactionId input) = Some t" and "status t = Pending"
  shows "process_load db input = Inr t"
  using assms by (simp add: process_load_def)

lemma both_pass_the_check:
  "transactions_by_pk db (transactionId input) = Some t \<and> status t = Pending \<longrightarrow>
   process_load db input = Inr t \<and>
   run_schedule tg e input [True, False, True, False] (Start, Start, db) =
     (Transitioned t, Transitioned t,
      updateTransactionStatus
        (updateTransactionStatus db (transactionId input) Processing
           Arg_undefined Arg_undefined)
        (transactionId input) Processing Arg_undefined Arg_undefined)"
proof (intro impI, elim conjE)
  assume pk: "transactions_by_pk db (transactionId input) = Some t" and st: "status t = Pending"
  note l = read_accepts_pending [OF pk st]
  have "run_schedule tg e input [True, False, True, False] (Start, Start, db) =
     (Transitioned t, Transitioned t,
      process_transition input (process_transition input db))"
    by (simp add: l)
  with l show "process_load db input = Inr t \<and>
   run_schedule tg e input [True, False, True, False] (Start, Start, db) =
     (Transitioned t, Transitioned t,
      updateTransactionStatus
        (updateTransactionStatus db (transactionId input) Processing
           Arg_undefined Arg_undefined)
        (transactionId input) Processing Arg_undefined Arg_undefined)"
    by (simp add: process_transition_def)
qed

lemma alone_is_main:
  "run_schedule tg e input [True, True, True] (Start, Start, db) =
   (Finished (fst (process_main tg e input db)), Start, snd (process_main tg e input db))"
  by (cases "process_load db input") (simp_all add: process_main_def)

text \<open>
  C7, amended: the transition from \<open>pending\<close> to \<open>processing\<close> is an unconditional
  update by primary key. Whatever the stored status, the update leaves every row with the
  identifier in status \<open>processing\<close> and drops or adds no row; it never fails on the
  stored status. \<open>process\<close> performs this update after its read of the transaction and
  before the payment. An invocation is rejected as already processed only by its own
  read, when that finds a status other than \<open>pending\<close>. Of two invocations on one
  pending transaction that both read before either writes, both pass the check and both
  perform the transition, the second on a stored status that is already \<open>processing\<close>.
  An invocation that runs alone takes these steps and returns what \<open>main\<close> returns.
\<close>

theorem transition_is_unconditional:
  "(\<forall>r\<in>set (transactions
              (updateTransactionStatus db tid Processing Arg_undefined Arg_undefined)).
      txn_id r = tid \<longrightarrow> status r = Processing)
   \<and> map txn_id (transactions
                  (updateTransactionStatus db tid Processing Arg_undefined Arg_undefined)) =
     map txn_id (transactions db)
   \<and> (process_load db input = Inr t \<longrightarrow>
      process_main tg e input db =
        process_payment tg e t input
          (updateTransactionStatus db (transactionId input) Processing
             Arg_undefined Arg_undefined))
   \<and> (transactions_by_pk db (transactionId input) = Some t \<and> status t \<noteq> Pending \<longrightarrow>
      process_load db input = Inl (''Transaction is already '' @ status_name (status t)))
   \<and> (transactions_by_pk db (transactionId input) = Some t \<and> status t = Pending \<longrightarrow>
      process_load db input = Inr t \<and>
      run_schedule tg e input [True, False, True, False] (Start, Start, db) =
        (Transitioned t, Transitioned t,
         updateTransactionStatus
           (updateTransactionStatus db (transactionId input) Processing
              Arg_undefined Arg_undefined)
           (transactionId input) Processing Arg_undefined Arg_undefined))
   \<and> run_schedule tg e input [True, True, True] (Start, Start, db) =
     (Finished (fst (process_main tg e input db)), Start, snd (process_main tg e input db))"
  using update_sets_processing [of db tid] update_keeps_ids [of db tid]
    main_performs_transition [of db input t tg e] read_rejects_other_status [of db input t]
    both_pass_the_check [of db input t tg e] alone_is_main [of tg e input db]
  by (intro conjI)

lemma pending_is_stored:
  "transactions_by_pk (store_of pending_transaction) (transactionId (trigger s)) =
     Some pending_transaction \<and> status pending_transaction = Pending"
  by (simp add: transactions_by_pk_def store_of_def trigger_def pending_transaction_def)

lemma settled_is_stored:
  "transactions_by_pk (store_of (settled_transaction Success)) (transactionId (trigger s)) =
     Some (settled_transaction Success) \<and> status (settled_transaction Success) \<noteq> Pending"
  by (simp add: transactions_by_pk_def store_of_def trigger_def settled_transaction_def
      pending_transaction_def)

lemma twice_processing:
  "updateTransactionStatus
     (updateTransactionStatus (store_of pending_transaction)
        (transactionId (trigger s)) Processing Arg_undefined Arg_undefined)
     (transactionId (trigger s)) Processing Arg_undefined Arg_undefined =
   store_of (pending_transaction \<lparr> status := Processing \<rparr>)"
  by (simp add: process_defs process_example_defs)

lemma status_name_settled:
  "''Transaction is already '' @ status_name (status (settled_transaction Success)) =
   ''Transaction is already success''"
  by (simp add: settled_transaction_def)

text \<open>
  C7, amended, at two stores: two invocations with the strategy \<open>failover\<close> on the
  pending transaction both reach the state after the transition, and the read of a
  transaction in status \<open>success\<close> is rejected.
\<close>

theorem transition_is_unconditional_witness:
  "run_schedule gateway_accepts 30 (trigger (Some ''failover'')) [True, False, True, False]
     (Start, Start, store_of pending_transaction) =
   (Transitioned pending_transaction, Transitioned pending_transaction,
    store_of (pending_transaction \<lparr> status := Processing \<rparr>)) \<and>
   process_load (store_of (settled_transaction Success)) (trigger None) =
     Inl ''Transaction is already success''"
proof -
  note P = transition_is_unconditional
             [of "store_of pending_transaction" "''txn-1''" "trigger (Some ''failover'')"
                 pending_transaction gateway_accepts 30]
  note S = transition_is_unconditional
             [of "store_of (settled_transaction Success)" "''txn-1''" "trigger None"
                 "settled_transaction Success" gateway_accepts 30]
  note E = P [THEN conjunct2, THEN conjunct2, THEN conjunct2, THEN conjunct2, THEN conjunct1,
               THEN mp, OF pending_is_stored, THEN conjunct2]
  note D = S [THEN conjunct2, THEN conjunct2, THEN conjunct2, THEN conjunct1,
               THEN mp, OF settled_is_stored]
  have a: "run_schedule gateway_accepts 30 (trigger (Some ''failover''))
             [True, False, True, False] (Start, Start, store_of pending_transaction) =
           (Transitioned pending_transaction, Transitioned pending_transaction,
            store_of (pending_transaction \<lparr> status := Processing \<rparr>))"
    using E unfolding twice_processing .
  have b: "process_load (store_of (settled_transaction Success)) (trigger None) =
             Inl ''Transaction is already success''"
    using D unfolding status_name_settled .
  from a b show ?thesis by (rule conjI)
qed

section \<open>Properties of the webhook handler\<close>

lemmas webhook_defs =
  webhook_main_def verifyWebhookSignature_def getGatewayConfig_def createGateway_def
  logWebhook_def dispatch_event_def with_update_def handlePaymentSuccess_def
  handlePaymentFailure_def handleRefundProcessed_def extractGatewayTransactionId_def
  extractRefundAmount_def transactions_by_gateway_id_def js_or_def div_100_def
  number_value_def js_ge_def updateTransaction_def update_transactions_by_pk_def
  markWebhookProcessed_def notifyMerchant_def transactions_by_pk_def jsonb_append_def
  webhook_failure_def

lemmas webhook_example_defs =
  no_string_numbers_def accepting_gateway_def rejecting_gateway_def factory_with_def
  empty_factory_def accepting_factory_def stripe_event_def failed_event_def
  paid_event_def refund_event_def
  store_of_def settled_transaction_def pending_transaction_def stripe_config_def
  gateway_a_def gateway_b_def

subsection \<open>A failure event for a transaction that is not in processing\<close>

text \<open>
  C6 at a \<open>payment.failed\<close> event with a valid signature for a transaction in any
  stored status \<open>st\<close>, in particular \<open>success\<close> or \<open>refunded\<close>: the handler sets the
  status to \<open>failed\<close>, replaces the gateway response and notifies the merchant.
  \<open>handlePaymentFailure\<close> reads the status and does not look at it.
\<close>

theorem failure_event_overrides_status:
  "webhook_main (factory_with accepting_gateway) no_string_numbers failed_event
     (store_of (settled_transaction st)) =
   (\<lparr> wr_success = True, wr_message = ''Webhook processed successfully'',
      wr_processed = True \<rparr>,
    (store_of (settled_transaction Failed
        \<lparr> gateway_response := Some (JObj [(''object'', JObj [(''id'', JStr ''pay_1'')])]) \<rparr>))
      \<lparr> webhooks :=
          [\<lparr> wh_id = 0, wh_source = ''gateway'', wh_event_type = ''payment.failed'',
             wh_payload = JObj [(''object'', JObj [(''id'', JStr ''pay_1'')])],
             wh_gateway_code = ''stripe'', processed = True \<rparr>],
        notifications :=
          [\<lparr> note_url = ''https://merchant.example/hook'', note_event = ''payment.failed'',
             note_transaction_id = ''txn-1'', note_status = Failed \<rparr>] \<rparr>)"
  by (simp add: webhook_defs webhook_example_defs)

subsection \<open>A webhook whose signature is not verified\<close>

lemma rejected_signature:
  "\<not> verifyWebhookSignature (factory_with rejecting_gateway) failed_event
       (store_of (settled_transaction Processing))"
  by (simp add: webhook_defs webhook_example_defs)

lemma rejected_run:
  "webhook_main (factory_with rejecting_gateway) no_string_numbers failed_event
     (store_of (settled_transaction Processing)) =
   (webhook_failure ''Invalid webhook signature'', store_of (settled_transaction Processing))"
  using rejected_signature by (simp add: webhook_main_def)

text \<open>
  C3, as stated, fails: for a webhook whose signature the gateway implementation rejects,
  the handler stores no webhook record.
\<close>

theorem invalid_signature_stores_no_record:
  "\<not> verifyWebhookSignature (factory_with rejecting_gateway) failed_event
       (store_of (settled_transaction Processing)) \<and>
   webhooks
     (snd (webhook_main (factory_with rejecting_gateway) no_string_numbers failed_event
             (store_of (settled_transaction Processing)))) = []"
proof -
  have "webhooks
     (snd (webhook_main (factory_with rejecting_gateway) no_string_numbers failed_event
             (store_of (settled_transaction Processing)))) = []"
    unfolding rejected_run by (simp add: store_of_def)
  with rejected_signature show ?thesis by (rule conjI)
qed

text \<open>
  C3, amended: for every received webhook whose signature verification fails, the
  handler returns success false and processed false with the message "Invalid webhook
  signature" and leaves the store as it was: no transaction is mutated and no webhook
  record is stored.
\<close>

theorem invalid_signature_rejected:
  assumes "\<not> verifyWebhookSignature factory payload db"
  shows "webhook_main factory B payload db =
           (\<lparr> wr_success = False, wr_message = ''Invalid webhook signature'',
              wr_processed = False \<rparr>, db)"
  using assms by (simp add: webhook_main_def webhook_failure_def)

text \<open>C3, amended, at an event that the gateway implementation rejects.\<close>

theorem invalid_signature_rejected_witness:
  "webhook_main (factory_with rejecting_gateway) no_string_numbers
     (refund_event 50000) (store_of (settled_transaction Success)) =
   (\<lparr> wr_success = False, wr_message = ''Invalid webhook signature'',
      wr_processed = False \<rparr>, store_of (settled_transaction Success))"
proof -
  have "\<not> verifyWebhookSignature (factory_with rejecting_gateway) (refund_event 50000)
            (store_of (settled_transaction Success))"
    by (simp add: webhook_defs webhook_example_defs)
  then show ?thesis by (rule invalid_signature_rejected)
qed

subsection \<open>The store after each step of the handler\<close>

lemma transactions_logWebhook:
  "transactions (snd (logWebhook db src ev pl gw)) = transactions db"
  by (simp add: logWebhook_def)

lemma length_webhooks_logWebhook:
  "length (webhooks (snd (logWebhook db src ev pl gw))) = Suc (length (webhooks db))"
  by (simp add: logWebhook_def)

lemma fst_logWebhook: "fst (logWebhook db src ev pl gw) = length (webhooks db)"
  by (simp add: logWebhook_def)

lemma by_gateway_id_same_rows:
  "transactions db' = transactions db \<Longrightarrow>
   transactions_by_gateway_id db' v = transactions_by_gateway_id db v"
  by (simp add: transactions_by_gateway_id_def split: js_value.splits json.splits)

lemma transactions_markWebhookProcessed:
  "transactions (markWebhookProcessed db n p) = transactions db"
  by (simp add: markWebhookProcessed_def)

lemma webhooks_markWebhookProcessed:
  "length (webhooks (markWebhookProcessed db n p)) = length (webhooks db)"
  by (simp add: markWebhookProcessed_def)

lemma transactions_notifyMerchant:
  "transactions (notifyMerchant db tid ev) = transactions db"
  by (simp add: notifyMerchant_def split: option.splits)

lemma webhooks_notifyMerchant:
  "webhooks (notifyMerchant db tid ev) = webhooks db"
  by (simp add: notifyMerchant_def split: option.splits)

lemma webhooks_updateTransaction:
  "webhooks (updateTransaction db upd) = webhooks db"
  by (simp add: updateTransaction_def update_transactions_by_pk_def)

lemma updateTransaction_rows:
  "\<forall>r\<in>set (transactions (updateTransaction db upd)).
     txn_id r = upd_transaction_id upd \<longrightarrow>
     status r = upd_status upd \<and> gateway_response r = Some (upd_gateway_response upd)"
  unfolding updateTransaction_def update_transactions_by_pk_def
  by (simp add: ball_Un)

lemma updateTransaction_ids:
  "map txn_id (transactions (updateTransaction db upd)) = map txn_id (transactions db)"
  by (induction "transactions db")
     (simp_all add: updateTransaction_def update_transactions_by_pk_def)

lemma found_row_is_stored:
  assumes "transactions_by_gateway_id db v = t # ts"
  shows "t \<in> set (transactions db)"
proof -
  have "t \<in> set (transactions_by_gateway_id db v)" using assms by simp
  then show ?thesis
    by (auto simp: transactions_by_gateway_id_def split: js_value.splits json.splits)
qed

lemma mapped_member:
  "y \<in> set (map f xs) \<Longrightarrow> \<exists>r\<in>set xs. f r = y"
  by (induction xs) auto

subsection \<open>Refund events\<close>

lemma refund_update:
  assumes "extractGatewayTransactionId payload = Inr gid"
    and "extractRefundAmount B payload = Inr refundAmount"
    and "transactions_by_gateway_id db gid = t # ts"
  shows "\<exists>m. handleRefundProcessed B payload db =
           Inr (Some \<lparr> upd_transaction_id = txn_id t,
                        upd_status = (if js_ge B refundAmount (txn_amount t)
                                      then Refunded else Success),
                        upd_gateway_response = data payload,
                        upd_metadata = m,
                        notify_merchant = True \<rparr>)"
  by (simp add: handleRefundProcessed_def assms)

lemma refund_main:
  assumes v: "verifyWebhookSignature factory payload db"
    and ev: "event_type payload = ''refund.processed''"
    and h: "handleRefundProcessed B payload
              (snd (logWebhook db ''gateway'' (event_type payload) (data payload)
                      (wp_gateway payload))) = Inr (Some upd)"
    and n: "notify_merchant upd"
  shows "webhook_main factory B payload db =
           (\<lparr> wr_success = True, wr_message = ''Webhook processed successfully'',
              wr_processed = True \<rparr>,
            notifyMerchant
              (markWebhookProcessed
                 (updateTransaction
                    (snd (logWebhook db ''gateway'' (event_type payload) (data payload)
                            (wp_gateway payload))) upd)
                 (length (webhooks db)) True)
              (upd_transaction_id upd) (event_type payload))"
proof -
  obtain n2 db2 where l: "logWebhook db ''gateway'' (event_type payload) (data payload)
                            (wp_gateway payload) = (n2, db2)"
    by (cases "logWebhook db ''gateway'' (event_type payload) (data payload)
                 (wp_gateway payload)")
  have n2: "n2 = length (webhooks db)"
    using l fst_logWebhook [of db "''gateway''" "event_type payload" "data payload"
        "wp_gateway payload"] by simp
  have h2: "handleRefundProcessed B payload db2 = Inr (Some upd)"
    using h l by simp
  have d: "dispatch_event B payload db2 = Inr (True, Some upd, db2)"
    by (simp add: dispatch_event_def with_update_def ev h2)
  show ?thesis
    by (simp add: webhook_main_def v l d n n2)
qed

text \<open>
  C9: when a \<open>refund.processed\<close> webhook passes verification and the transaction with
  the extracted gateway identifier is found, the handler succeeds and every row with the
  identifier of the found transaction (there is one) has the status \<open>refunded\<close> if the
  refund amount, a number \<open>x\<close>, is at least the amount of the transaction, and
  \<open>success\<close> if it is smaller; its gateway response is the payload of the event.
\<close>

theorem refund_processed_sets_status:
  assumes v: "verifyWebhookSignature factory payload db"
    and ev: "event_type payload = ''refund.processed''"
    and gid: "extractGatewayTransactionId payload = Inr gid"
    and amt: "extractRefundAmount B payload = Inr refundAmount"
    and num: "to_number B refundAmount = Some x"
    and found: "transactions_by_gateway_id db gid = t # ts"
  shows "fst (webhook_main factory B payload db) =
           \<lparr> wr_success = True, wr_message = ''Webhook processed successfully'',
             wr_processed = True \<rparr>
         \<and> (\<exists>r\<in>set (transactions (snd (webhook_main factory B payload db))).
               txn_id r = txn_id t)
         \<and> (\<forall>r\<in>set (transactions (snd (webhook_main factory B payload db))).
               txn_id r = txn_id t \<longrightarrow>
               status r = (if x \<ge> txn_amount t then Refunded else Success) \<and>
               gateway_response r = Some (data payload))"
proof -
  let ?db2 = "snd (logWebhook db ''gateway'' (event_type payload) (data payload)
                     (wp_gateway payload))"
  have rows2: "transactions ?db2 = transactions db"
    by (rule transactions_logWebhook)
  have found2: "transactions_by_gateway_id ?db2 gid = t # ts"
    using found by_gateway_id_same_rows [OF rows2] by simp
  have ge: "js_ge B refundAmount (txn_amount t) = (x \<ge> txn_amount t)"
    by (simp add: js_ge_def num)
  from refund_update [OF gid amt found2] obtain m where
    h: "handleRefundProcessed B payload ?db2 =
          Inr (Some \<lparr> upd_transaction_id = txn_id t,
                       upd_status = (if x \<ge> txn_amount t then Refunded else Success),
                       upd_gateway_response = data payload,
                       upd_metadata = m,
                       notify_merchant = True \<rparr>)"
    unfolding ge by blast
  let ?upd = "\<lparr> upd_transaction_id = txn_id t,
                 upd_status = (if x \<ge> txn_amount t then Refunded else Success),
                 upd_gateway_response = data payload,
                 upd_metadata = m,
                 notify_merchant = True \<rparr>"
  have run: "webhook_main factory B payload db =
           (\<lparr> wr_success = True, wr_message = ''Webhook processed successfully'',
              wr_processed = True \<rparr>,
            notifyMerchant
              (markWebhookProcessed (updateTransaction ?db2 ?upd) (length (webhooks db)) True)
              (upd_transaction_id ?upd) (event_type payload))"
    by (rule refund_main [OF v ev h]) simp
  have rows: "transactions (snd (webhook_main factory B payload db)) =
              transactions (updateTransaction ?db2 ?upd)"
    unfolding run
    by (simp add: transactions_notifyMerchant transactions_markWebhookProcessed)
  have a: "fst (webhook_main factory B payload db) =
           \<lparr> wr_success = True, wr_message = ''Webhook processed successfully'',
             wr_processed = True \<rparr>"
    unfolding run by simp
  have "txn_id t \<in> set (map txn_id (transactions db))"
    using found_row_is_stored [OF found] by simp
  then have "txn_id t \<in> set (map txn_id (transactions (updateTransaction ?db2 ?upd)))"
    unfolding updateTransaction_ids rows2 .
  then have b: "\<exists>r\<in>set (transactions (snd (webhook_main factory B payload db))).
               txn_id r = txn_id t"
    unfolding rows by (rule mapped_member)
  have c: "\<forall>r\<in>set (transactions (snd (webhook_main factory B payload db))).
               txn_id r = txn_id t \<longrightarrow>
               status r = (if x \<ge> txn_amount t then Refunded else Success) \<and>
               gateway_response r = Some (data payload)"
    unfolding rows using updateTransaction_rows [of ?db2 ?upd] by simp
  from a b c show ?thesis by (intro conjI)
qed

lemma refund_example_verified:
  "verifyWebhookSignature (factory_with accepting_gateway) (refund_event cents)
     (store_of (settled_transaction Success))"
  by (simp add: webhook_defs webhook_example_defs)

lemma refund_example_event: "event_type (refund_event cents) = ''refund.processed''"
  by (simp add: refund_event_def stripe_event_def)

lemma refund_example_id:
  "extractGatewayTransactionId (refund_event cents) = Inr (Json (JStr ''pay_1''))"
  by (simp add: extractGatewayTransactionId_def js_or_def refund_event_def stripe_event_def)

lemma refund_example_amount:
  "extractRefundAmount no_string_numbers (refund_event cents) = Inr (Json (JNum (cents / 100)))"
  by (simp add: extractRefundAmount_def div_100_def number_value_def refund_event_def
      stripe_event_def)

lemma refund_example_found:
  "transactions_by_gateway_id (store_of (settled_transaction Success)) (Json (JStr ''pay_1'')) =
   settled_transaction Success # []"
  by (simp add: transactions_by_gateway_id_def store_of_def settled_transaction_def)

lemma refund_example_row:
  "txn_id (settled_transaction Success) = ''txn-1'' \<and>
   txn_amount (settled_transaction Success) = 500"
  by (simp add: settled_transaction_def pending_transaction_def)

text \<open>
  C9 at a transaction of 500.00: a refund of 500.00 gives the status \<open>refunded\<close>, a
  refund of 200.00 the status \<open>success\<close>.
\<close>

theorem refund_processed_sets_status_witness:
  "(\<exists>r\<in>set (transactions
               (snd (webhook_main (factory_with accepting_gateway) no_string_numbers
                       (refund_event 50000) (store_of (settled_transaction Success))))).
      txn_id r = ''txn-1'' \<and> status r = Refunded \<and>
      gateway_response r = Some (data (refund_event 50000)))
   \<and> (\<exists>r\<in>set (transactions
               (snd (webhook_main (factory_with accepting_gateway) no_string_numbers
                       (refund_event 20000) (store_of (settled_transaction Success))))).
      txn_id r = ''txn-1'' \<and> status r = Success \<and>
      gateway_response r = Some (data (refund_event 20000)))"
proof -
  have num: "to_number no_string_numbers (Json (JNum x)) = Some x" for x
    by simp
  note full = refund_processed_sets_status
                [OF refund_example_verified [of 50000] refund_example_event [of 50000]
                    refund_example_id [of 50000] refund_example_amount [of 50000] num
                    refund_example_found]
  note part = refund_processed_sets_status
                [OF refund_example_verified [of 20000] refund_example_event [of 20000]
                    refund_example_id [of 20000] refund_example_amount [of 20000] num
                    refund_example_found]
  have a: "\<exists>r\<in>set (transactions
               (snd (webhook_main (factory_with accepting_gateway) no_string_numbers
                       (refund_event 50000) (store_of (settled_transaction Success))))).
      txn_id r = ''txn-1'' \<and> status r = Refunded \<and>
      gateway_response r = Some (data (refund_event 50000))"
    using full unfolding refund_example_row [THEN conjunct1] refund_example_row [THEN conjunct2]
    by simp blast
  have b: "\<exists>r\<in>set (transactions
               (snd (webhook_main (factory_with accepting_gateway) no_string_numbers
                       (refund_event 20000) (store_of (settled_transaction Success))))).
      txn_id r = ''txn-1'' \<and> status r = Success \<and>
      gateway_response r = Some (data (refund_event 20000))"
    using part unfolding refund_example_row [THEN conjunct1] refund_example_row [THEN conjunct2]
    by simp blast
  from a b show ?thesis by (rule conjI)
qed

subsection \<open>Providers without an implementation\<close>

lemma webhooks_dispatch:
  assumes "dispatch_event B payload db = Inr (p, u, db')"
  shows "webhooks db' = webhooks db"
  using assms
  by (auto simp: dispatch_event_def with_update_def handleDisputeCreated_def Let_def
      split: if_splits sum.splits)

lemma accepted_is_logged:
  assumes v: "verifyWebhookSignature factory payload db"
  shows "length (webhooks (snd (webhook_main factory B payload db))) =
         Suc (length (webhooks db))"
proof -
  obtain n2 db2 where l: "logWebhook db ''gateway'' (event_type payload) (data payload)
                            (wp_gateway payload) = (n2, db2)"
    by (cases "logWebhook db ''gateway'' (event_type payload) (data payload)
                 (wp_gateway payload)")
  have len2: "length (webhooks db2) = Suc (length (webhooks db))"
    using l length_webhooks_logWebhook [of db "''gateway''" "event_type payload"
        "data payload" "wp_gateway payload"] by simp
  show ?thesis
  proof (cases "dispatch_event B payload db2")
    case (Inl e)
    then show ?thesis by (simp add: webhook_main_def v l len2)
  next
    case (Inr res)
    obtain p u db3 where res: "res = (p, u, db3)" by (cases res)
    have same: "webhooks db3 = webhooks db2"
      using Inr res webhooks_dispatch by simp
    show ?thesis
      by (simp add: webhook_main_def v l Inr res Let_def webhooks_markWebhookProcessed
          webhooks_notifyMerchant webhooks_updateTransaction same len2
          split: option.splits)
  qed
qed

lemma verification_fails_iff:
  "(\<not> verifyWebhookSignature factory payload db) =
   (getGatewayConfig db (wp_gateway payload) = None \<or>
    (\<exists>c gw. getGatewayConfig db (wp_gateway payload) = Some c \<and>
            createGateway factory (gc_provider c) = Some gw \<and>
            (gw payload c = None \<or> gw payload c = Some False)))"
  by (auto simp: verifyWebhookSignature_def split: option.splits)

lemma verified_without_implementation:
  assumes "getGatewayConfig db (wp_gateway payload) = Some cfg"
    and "factory (gc_provider cfg) = None"
  shows "verifyWebhookSignature factory payload db"
  using assms by (simp add: verifyWebhookSignature_def createGateway_def)

lemma verified_by_accepting:
  assumes "getGatewayConfig db (wp_gateway payload) = Some cfg"
  shows "verifyWebhookSignature accepting_factory payload db"
  using assms
  by (simp add: verifyWebhookSignature_def createGateway_def accepting_factory_def
      accepting_gateway_def)

lemma same_run_when_verified:
  assumes "verifyWebhookSignature f1 payload db" and "verifyWebhookSignature f2 payload db"
  shows "webhook_main f1 B payload db = webhook_main f2 B payload db"
  using assms by (simp add: webhook_main_def)

lemma success_update:
  assumes "extractGatewayTransactionId payload = Inr gid"
    and "transactions_by_gateway_id db gid = t # ts"
    and "status t = Processing"
  shows "handlePaymentSuccess payload db =
           Inr (Some \<lparr> upd_transaction_id = txn_id t,
                        upd_status = Success,
                        upd_gateway_response = data payload,
                        upd_metadata = None,
                        notify_merchant = True \<rparr>)"
  by (simp add: handlePaymentSuccess_def assms)

lemma success_main:
  assumes v: "verifyWebhookSignature factory payload db"
    and ev: "event_type payload = ''payment.success''"
    and h: "handlePaymentSuccess payload
              (snd (logWebhook db ''gateway'' (event_type payload) (data payload)
                      (wp_gateway payload))) = Inr (Some upd)"
    and n: "notify_merchant upd"
  shows "webhook_main factory B payload db =
           (\<lparr> wr_success = True, wr_message = ''Webhook processed successfully'',
              wr_processed = True \<rparr>,
            notifyMerchant
              (markWebhookProcessed
                 (updateTransaction
                    (snd (logWebhook db ''gateway'' (event_type payload) (data payload)
                            (wp_gateway payload))) upd)
                 (length (webhooks db)) True)
              (upd_transaction_id upd) (event_type payload))"
proof -
  obtain n2 db2 where l: "logWebhook db ''gateway'' (event_type payload) (data payload)
                            (wp_gateway payload) = (n2, db2)"
    by (cases "logWebhook db ''gateway'' (event_type payload) (data payload)
                 (wp_gateway payload)")
  have n2: "n2 = length (webhooks db)"
    using l fst_logWebhook [of db "''gateway''" "event_type payload" "data payload"
        "wp_gateway payload"] by simp
  have h2: "handlePaymentSuccess payload db2 = Inr (Some upd)"
    using h l by simp
  have d: "dispatch_event B payload db2 = Inr (True, Some upd, db2)"
    by (simp add: dispatch_event_def with_update_def ev h2)
  show ?thesis
    by (simp add: webhook_main_def v l d n n2)
qed

lemma success_processed:
  assumes v: "verifyWebhookSignature factory payload db"
    and ev: "event_type payload = ''payment.success''"
    and gid: "extractGatewayTransactionId payload = Inr gid"
    and found: "transactions_by_gateway_id db gid = t # ts"
    and st: "status t = Processing"
  shows "fst (webhook_main factory B payload db) =
           \<lparr> wr_success = True, wr_message = ''Webhook processed successfully'',
             wr_processed = True \<rparr>
         \<and> (\<exists>r\<in>set (transactions (snd (webhook_main factory B payload db))).
               txn_id r = txn_id t)
         \<and> (\<forall>r\<in>set (transactions (snd (webhook_main factory B payload db))).
               txn_id r = txn_id t \<longrightarrow>
               status r = Success \<and> gateway_response r = Some (data payload))"
proof -
  let ?db2 = "snd (logWebhook db ''gateway'' (event_type payload) (data payload)
                     (wp_gateway payload))"
  let ?upd = "\<lparr> upd_transaction_id = txn_id t, upd_status = Success,
                 upd_gateway_response = data payload, upd_metadata = None,
                 notify_merchant = True \<rparr>"
  have rows2: "transactions ?db2 = transactions db"
    by (rule transactions_logWebhook)
  have found2: "transactions_by_gateway_id ?db2 gid = t # ts"
    using found by_gateway_id_same_rows [OF rows2] by simp
  have h: "handlePaymentSuccess payload ?db2 = Inr (Some ?upd)"
    by (rule success_update [OF gid found2 st])
  have run: "webhook_main factory B payload db =
           (\<lparr> wr_success = True, wr_message = ''Webhook processed successfully'',
              wr_processed = True \<rparr>,
            notifyMerchant
              (markWebhookProcessed (updateTransaction ?db2 ?upd) (length (webhooks db)) True)
              (upd_transaction_id ?upd) (event_type payload))"
    by (rule success_main [OF v ev h]) simp
  have rows: "transactions (snd (webhook_main factory B payload db)) =
              transactions (updateTransaction ?db2 ?upd)"
    unfolding run
    by (simp add: transactions_notifyMerchant transactions_markWebhookProcessed)
  have a: "fst (webhook_main factory B payload db) =
           \<lparr> wr_success = True, wr_message = ''Webhook processed successfully'',
             wr_processed = True \<rparr>"
    unfolding run by simp
  have "txn_id t \<in> set (map txn_id (transactions db))"
    using found_row_is_stored [OF found] by simp
  then have "txn_id t \<in> set (map txn_id (transactions (updateTransaction ?db2 ?upd)))"
    unfolding updateTransaction_ids rows2 .
  then have b: "\<exists>r\<in>set (transactions (snd (webhook_main factory B payload db))).
               txn_id r = txn_id t"
    unfolding rows by (rule mapped_member)
  have c: "\<forall>r\<in>set (transactions (snd (webhook_main factory B payload db))).
               txn_id r = txn_id t \<longrightarrow>
               status r = Success \<and> gateway_response r = Some (data payload)"
    unfolding rows using updateTransaction_rows [of ?db2 ?upd] by simp
  from a b c show ?thesis by (intro conjI)
qed

text \<open>
  C10: when the configuration of the gateway exists and the factory has no entry for its
  provider, verification returns true without consulting any implementation, and the
  webhook is accepted and processed: the run of the handler is the run for a webhook
  whose signature an implementation has accepted, it stores the webhook record, and, for
  one event, a \<open>payment.success\<close> for a transaction found in \<open>processing\<close> sets that
  transaction to \<open>success\<close> with the payload as gateway response and returns success
  and processed. Verification returns false only when the configuration is missing or
  when the implementation that the factory creates throws or rejects.
\<close>

theorem unsupported_provider_is_accepted:
  "(getGatewayConfig db (wp_gateway payload) = Some cfg \<and> factory (gc_provider cfg) = None
      \<longrightarrow> verifyWebhookSignature factory payload db \<and>
          webhook_main factory B payload db = webhook_main accepting_factory B payload db \<and>
          length (webhooks (snd (webhook_main factory B payload db))) =
            Suc (length (webhooks db)) \<and>
          (event_type payload = ''payment.success'' \<and>
           extractGatewayTransactionId payload = Inr gid \<and>
           transactions_by_gateway_id db gid = t # ts \<and> status t = Processing
           \<longrightarrow> fst (webhook_main factory B payload db) =
                 \<lparr> wr_success = True, wr_message = ''Webhook processed successfully'',
                   wr_processed = True \<rparr> \<and>
               (\<exists>r\<in>set (transactions (snd (webhook_main factory B payload db))).
                  txn_id r = txn_id t) \<and>
               (\<forall>r\<in>set (transactions (snd (webhook_main factory B payload db))).
                  txn_id r = txn_id t \<longrightarrow>
                  status r = Success \<and> gateway_response r = Some (data payload))))
   \<and> ((\<not> verifyWebhookSignature factory payload db) =
      (getGatewayConfig db (wp_gateway payload) = None \<or>
       (\<exists>c gw. getGatewayConfig db (wp_gateway payload) = Some c \<and>
               createGateway factory (gc_provider c) = Some gw \<and>
               (gw payload c = None \<or> gw payload c = Some False))))"
proof -
  have a: "verifyWebhookSignature factory payload db \<and>
          webhook_main factory B payload db = webhook_main accepting_factory B payload db \<and>
          length (webhooks (snd (webhook_main factory B payload db))) =
            Suc (length (webhooks db)) \<and>
          (event_type payload = ''payment.success'' \<and>
           extractGatewayTransactionId payload = Inr gid \<and>
           transactions_by_gateway_id db gid = t # ts \<and> status t = Processing
           \<longrightarrow> fst (webhook_main factory B payload db) =
                 \<lparr> wr_success = True, wr_message = ''Webhook processed successfully'',
                   wr_processed = True \<rparr> \<and>
               (\<exists>r\<in>set (transactions (snd (webhook_main factory B payload db))).
                  txn_id r = txn_id t) \<and>
               (\<forall>r\<in>set (transactions (snd (webhook_main factory B payload db))).
                  txn_id r = txn_id t \<longrightarrow>
                  status r = Success \<and> gateway_response r = Some (data payload)))"
    if c: "getGatewayConfig db (wp_gateway payload) = Some cfg"
      and f: "factory (gc_provider cfg) = None"
  proof (intro conjI impI)
    show v: "verifyWebhookSignature factory payload db"
      using c f by (rule verified_without_implementation)
    show "webhook_main factory B payload db = webhook_main accepting_factory B payload db"
      by (rule same_run_when_verified [OF v verified_by_accepting [OF c]])
    show "length (webhooks (snd (webhook_main factory B payload db))) =
            Suc (length (webhooks db))"
      by (rule accepted_is_logged [OF v])
  next
    assume h: "event_type payload = ''payment.success'' \<and>
           extractGatewayTransactionId payload = Inr gid \<and>
           transactions_by_gateway_id db gid = t # ts \<and> status t = Processing"
    have v: "verifyWebhookSignature factory payload db"
      using c f by (rule verified_without_implementation)
    note P = success_processed [OF v h [THEN conjunct1] h [THEN conjunct2, THEN conjunct1]
               h [THEN conjunct2, THEN conjunct2, THEN conjunct1]
               h [THEN conjunct2, THEN conjunct2, THEN conjunct2], of B]
    show "fst (webhook_main factory B payload db) =
                 \<lparr> wr_success = True, wr_message = ''Webhook processed successfully'',
                   wr_processed = True \<rparr>"
      by (rule P [THEN conjunct1])
    show "\<exists>r\<in>set (transactions (snd (webhook_main factory B payload db))).
                  txn_id r = txn_id t"
      by (rule P [THEN conjunct2, THEN conjunct1])
    show "\<forall>r\<in>set (transactions (snd (webhook_main factory B payload db))).
                  txn_id r = txn_id t \<longrightarrow>
                  status r = Success \<and> gateway_response r = Some (data payload)"
      by (rule P [THEN conjunct2, THEN conjunct2])
  qed
  from a verification_fails_iff [of factory payload db] show ?thesis by blast
qed

lemma paid_example_config:
  "getGatewayConfig (store_of (settled_transaction Processing)) (wp_gateway paid_event) =
     Some stripe_config"
  by (simp add: getGatewayConfig_def store_of_def paid_event_def stripe_event_def
      stripe_config_def)

lemma paid_example_factory: "empty_factory (gc_provider stripe_config) = None"
  by (simp add: empty_factory_def)

lemma paid_example_event:
  "event_type paid_event = ''payment.success'' \<and>
   extractGatewayTransactionId paid_event = Inr (Json (JStr ''pay_1'')) \<and>
   transactions_by_gateway_id (store_of (settled_transaction Processing))
     (Json (JStr ''pay_1'')) = settled_transaction Processing # [] \<and>
   status (settled_transaction Processing) = Processing"
  by (simp add: extractGatewayTransactionId_def js_or_def paid_event_def stripe_event_def
      transactions_by_gateway_id_def store_of_def settled_transaction_def)

lemma paid_example_id: "txn_id (settled_transaction Processing) = ''txn-1''"
  by (simp add: settled_transaction_def pending_transaction_def)

text \<open>
  C10 at a \<open>payment.success\<close> event for the gateway \<open>stripe\<close>, whose configuration
  is stored, with a factory that has no entry, for a transaction in \<open>processing\<close>: the
  signature counts as verified, the record is stored and the transaction is set to
  \<open>success\<close>.
\<close>

theorem unsupported_provider_is_accepted_witness:
  "getGatewayConfig (store_of (settled_transaction Processing)) (wp_gateway paid_event) =
     Some stripe_config \<and>
   empty_factory (gc_provider stripe_config) = None \<and>
   verifyWebhookSignature empty_factory paid_event (store_of (settled_transaction Processing)) \<and>
   length (webhooks (snd (webhook_main empty_factory no_string_numbers paid_event
                            (store_of (settled_transaction Processing))))) =
     Suc (length (webhooks (store_of (settled_transaction Processing)))) \<and>
   (\<exists>r\<in>set (transactions
               (snd (webhook_main empty_factory no_string_numbers paid_event
                       (store_of (settled_transaction Processing))))).
      txn_id r = ''txn-1'' \<and> status r = Success \<and>
      gateway_response r = Some (data paid_event))"
proof -
  note T = unsupported_provider_is_accepted
             [of "store_of (settled_transaction Processing)" paid_event stripe_config
                 empty_factory no_string_numbers "Json (JStr ''pay_1'')"
                 "settled_transaction Processing" "[]",
              THEN conjunct1, THEN mp, OF conjI [OF paid_example_config paid_example_factory]]
  note V = T [THEN conjunct1]
  note L = T [THEN conjunct2, THEN conjunct2, THEN conjunct1]
  note P = T [THEN conjunct2, THEN conjunct2, THEN conjunct2, THEN mp, OF paid_example_event]
  from P have "\<exists>r\<in>set (transactions
               (snd (webhook_main empty_factory no_string_numbers paid_event
                       (store_of (settled_transaction Processing))))).
      txn_id r = ''txn-1'' \<and> status r = Success \<and>
      gateway_response r = Some (data paid_event)"
    unfolding paid_example_id by blast
  with paid_example_config paid_example_factory V L show ?thesis by (intro conjI)
qed

end
